theory Spec2Isabelle
  imports Main "HOL-Library.Sublist"
begin

section \<open>Strings of the runtime\<close>

text \<open>
  A JavaScript string is a sequence of code units.  The model uses \<^typ>\<open>string\<close>
  and reads every \<^typ>\<open>char\<close> as one code unit in the range U+0000..U+00FF, which
  covers every literal of the program.  The built-in string methods the program calls are
  written out below for that range.
\<close>

definition is_ws :: "char \<Rightarrow> bool" where
  \<comment> \<open>the white space and line terminators that \<open>String.prototype.trim\<close> removes:
      TAB, LF, VT, FF, CR, SPACE and NO-BREAK SPACE\<close>
  "is_ws c = (of_char c \<in> {9, 10, 11, 12, 13, 32, 160 :: nat})"

definition trim :: "string \<Rightarrow> string" where
  "trim s = rev (dropWhile is_ws (rev (dropWhile is_ws s)))"

definition lower_char :: "char \<Rightarrow> char" where
  \<comment> \<open>\<open>toLowerCase\<close> on one code unit: A..Z, and the upper-case letters of U+00C0..U+00DE
      (U+00D7 is the multiplication sign)\<close>
  "lower_char c =
     (let n = (of_char c :: nat)
      in if (65 \<le> n \<and> n \<le> 90) \<or> (192 \<le> n \<and> n \<le> 222 \<and> n \<noteq> 215)
         then char_of (n + 32) else c)"

definition toLowerCase :: "string \<Rightarrow> string" where
  "toLowerCase s = map lower_char s"

fun lastIndexOf :: "string \<Rightarrow> char \<Rightarrow> int" where
  "lastIndexOf [] c = - 1"
| "lastIndexOf (x # xs) c =
     (let r = lastIndexOf xs c
      in if r \<noteq> - 1 then r + 1 else if x = c then 0 else - 1)"

definition substring :: "string \<Rightarrow> int \<Rightarrow> string" where
  \<comment> \<open>\<open>s.substring(i)\<close>: a negative start counts as 0\<close>
  "substring s i = drop (nat i) s"

definition startsWith :: "string \<Rightarrow> string \<Rightarrow> bool" where
  "startsWith s p = prefix p s"

definition includes_js :: "string \<Rightarrow> string \<Rightarrow> bool" where
  "includes_js s p = sublist p s"

fun split_js :: "string \<Rightarrow> char \<Rightarrow> string list" where
  \<comment> \<open>\<open>s.split(c)\<close> for a one-character separator; the empty string gives one empty part\<close>
  "split_js [] c = [[]]"
| "split_js (x # xs) c =
     (if x = c then [] # split_js xs c
      else (case split_js xs c of [] \<Rightarrow> [[x]] | w # ws \<Rightarrow> (x # w) # ws))"

definition join :: "string list \<Rightarrow> string \<Rightarrow> string" where
  \<comment> \<open>\<open>parts.join(sep)\<close>\<close>
  "join parts sep = (case parts of [] \<Rightarrow> [] | p # ps \<Rightarrow> p @ concat (map (\<lambda>q. sep @ q) ps))"

section \<open>Thrown values\<close>

text \<open>
  What a \<open>throw\<close> can carry.  \<open>Error\<close>, \<open>TypeError\<close> and \<open>RequestError\<close> are instances of
  the runtime's \<open>Error\<close> and have a message; a \<open>RequestError\<close> of the hosting API client
  also has an HTTP status.  \<open>NonError\<close> is any other thrown value, given by its
  \<open>String(...)\<close> form.
\<close>

datatype thrown =
    Error string
  | TypeError string
  | RequestError nat string
  | NonError string

fun status :: "thrown \<Rightarrow> nat option" where
  \<comment> \<open>\<open>error.status\<close>\<close>
  "status (RequestError st m) = Some st"
| "status e = None"

fun message :: "thrown \<Rightarrow> string option" where
  \<comment> \<open>\<open>error.message\<close>\<close>
  "message (Error m) = Some m"
| "message (TypeError m) = Some m"
| "message (RequestError st m) = Some m"
| "message (NonError v) = None"

fun error_text :: "thrown \<Rightarrow> string" where
  \<comment> \<open>\<open>error instanceof Error ? error.message : String(error)\<close>\<close>
  "error_text (Error m) = m"
| "error_text (TypeError m) = m"
| "error_text (RequestError st m) = m"
| "error_text (NonError v) = v"

definition message_or :: "thrown \<Rightarrow> string \<Rightarrow> string" where
  \<comment> \<open>\<open>error.message || fallback\<close>: a missing or empty message gives the fallback\<close>
  "message_or e fallback =
     (case message e of None \<Rightarrow> fallback | Some m \<Rightarrow> if m = [] then fallback else m)"

definition returns :: "thrown + 'a \<Rightarrow> bool" where
  \<comment> \<open>the call inside a \<open>try\<close> completed without throwing\<close>
  "returns r = (case r of Inl e \<Rightarrow> False | Inr v \<Rightarrow> True)"

section \<open>services/parser.ts: DocumentParser\<close>

datatype DocumentFormat = Json | Markdown | Yaml | Text | Auto

text \<open>
  The field \<open>content\<close> has type \<open>unknown\<close>: the value a decoder produced, or a string.
\<close>

datatype 'v unknown = Value 'v | Str string

record 'v ParsedDocument =
  format :: DocumentFormat
  content :: "'v unknown"
  metadata :: "(string \<rightharpoonup> 'v) option"
  rawContent :: string

text \<open>
  The three decoders are libraries (the runtime's \<open>JSON.parse\<close>, \<open>js-yaml\<close>'s \<open>load\<close> and
  \<open>gray-matter\<close>); they are parameters of the model.  Each returns its value or throws.
\<close>

record 'v matter_file =
  m_content :: string
  m_data :: "string \<rightharpoonup> 'v"

record 'v libs =
  JSON_parse :: "string \<Rightarrow> thrown + 'v"
  yaml_load :: "string \<Rightarrow> thrown + 'v"
  matter :: "string \<Rightarrow> thrown + 'v matter_file"

definition getFileExtension :: "string \<Rightarrow> string" where
  "getFileExtension filePath =
     (let lastDot = lastIndexOf filePath (CHR ''.'')
      in if lastDot = - 1 then [] else toLowerCase (substring filePath lastDot))"

definition detect_from_path :: "string option \<Rightarrow> DocumentFormat option" where
  \<comment> \<open>the block \<open>if (filePath) { ... }\<close>; \<open>None\<close> when no \<open>return\<close> is reached.
      An absent and an empty path are both falsy.\<close>
  "detect_from_path filePath =
     (case filePath of
        None \<Rightarrow> None
      | Some p \<Rightarrow>
          if p = [] then None
          else let extension = getFileExtension p
               in if extension = ''.json'' then Some Json
                  else if extension = ''.md'' \<or> extension = ''.markdown'' then Some Markdown
                  else if extension = ''.yaml'' \<or> extension = ''.yml'' then Some Yaml
                  else if extension = ''.txt'' \<or> extension = ''.text'' then Some Text
                  else None)"

definition detect_from_content :: "'v libs \<Rightarrow> string \<Rightarrow> DocumentFormat" where
  \<comment> \<open>the rest of \<open>detectFormat\<close>, from \<open>const trimmed = fileContent.trim()\<close> on; both
      \<open>catch\<close> blocks are empty\<close>
  "detect_from_content L fileContent =
     (let trimmed = trim fileContent
      in if (startsWith trimmed ''{'' \<or> startsWith trimmed ''['') \<and> returns (JSON_parse L trimmed)
         then Json
         else if startsWith trimmed ''---'' then Markdown
         else if includes_js trimmed '':'' \<and> \<not> includes_js trimmed ''{'' \<and> returns (yaml_load L trimmed)
         then Yaml
         else Text)"

definition detectFormat ::
  "'v libs \<Rightarrow> string \<Rightarrow> string option \<Rightarrow> DocumentFormat option \<Rightarrow> DocumentFormat" where
  "detectFormat L fileContent filePath explicitFormat =
     (case explicitFormat of
        Some f \<Rightarrow>
          if f \<noteq> Auto then f
          else (case detect_from_path filePath of
                  Some g \<Rightarrow> g
                | None \<Rightarrow> detect_from_content L fileContent)
      | None \<Rightarrow>
          (case detect_from_path filePath of
             Some g \<Rightarrow> g
           | None \<Rightarrow> detect_from_content L fileContent))"

definition parseJSON :: "'v libs \<Rightarrow> string \<Rightarrow> thrown + 'v ParsedDocument" where
  "parseJSON L c =
     (case JSON_parse L c of
        Inr parsed \<Rightarrow>
          Inr \<lparr>format = Json, content = Value parsed, metadata = None, rawContent = c\<rparr>
      | Inl e \<Rightarrow> Inl (Error (''Failed to parse JSON: '' @ error_text e)))"

definition parseMarkdown :: "'v libs \<Rightarrow> string \<Rightarrow> thrown + 'v ParsedDocument" where
  "parseMarkdown L c =
     (case matter L c of
        Inr parsed \<Rightarrow>
          Inr \<lparr>format = Markdown, content = Str (trim (m_content parsed)),
               metadata = Some (m_data parsed), rawContent = c\<rparr>
      | Inl e \<Rightarrow> Inl (Error (''Failed to parse Markdown: '' @ error_text e)))"

definition parseYAML :: "'v libs \<Rightarrow> string \<Rightarrow> thrown + 'v ParsedDocument" where
  "parseYAML L c =
     (case yaml_load L c of
        Inr parsed \<Rightarrow>
          Inr \<lparr>format = Yaml, content = Value parsed, metadata = None, rawContent = c\<rparr>
      | Inl e \<Rightarrow> Inl (Error (''Failed to parse YAML: '' @ error_text e)))"

definition parseText :: "string \<Rightarrow> thrown + 'v ParsedDocument" where
  "parseText c = Inr \<lparr>format = Text, content = Str (trim c), metadata = None, rawContent = c\<rparr>"

definition parseDocument ::
  "'v libs \<Rightarrow> string \<Rightarrow> string option \<Rightarrow> DocumentFormat option \<Rightarrow> thrown + 'v ParsedDocument" where
  "parseDocument L fileContent filePath fmt =
     (let detectedFormat = detectFormat L fileContent filePath fmt
      in case detectedFormat of
           Json \<Rightarrow> parseJSON L fileContent
         | Markdown \<Rightarrow> parseMarkdown L fileContent
         | Yaml \<Rightarrow> parseYAML L fileContent
         | Text \<Rightarrow> parseText fileContent
         | Auto \<Rightarrow> parseText fileContent)"

section \<open>The world outside the program\<close>

text \<open>
  Every call that leaves the process is recorded, in order.  The hosting API and the
  network are parameters: each endpoint answers from the calls made before it (so two
  identical requests may be answered differently) and from its arguments, and either
  returns its data or throws.
\<close>

datatype api_call =
    UsersGetAuthenticated
  | ReposGet string string
  | ReposGetContent string string string "string option"
  | GitGetRef string string string
  | GitGetTree string string string
  | Fetch string

text \<open>An element of \<open>tree: any[]\<close>; every property may be missing.\<close>

record tree_item =
  item_path :: "string option"
  item_name :: "string option"
  item_sha :: "string option"
  item_size :: "nat option"

text \<open>The data of \<open>repos.getContent\<close> for a path that is not a directory.\<close>

record file_data =
  d_type :: string
  d_path :: string
  d_sha :: string
  d_size :: nat
  d_name :: string
  d_content :: "string option"
  d_encoding :: "string option"

text \<open>
  What \<open>repos.getContent\<close> answers: a failure, the array of a directory's children, or the
  object of a single file.  A repository's tree is finite, so the answers to the nested
  listings of a walk are carried by the children themselves: \<open>c_listing\<close> of a child is what
  the API answers when the walk lists that child's path.
\<close>

datatype content_response =
    Failed thrown
  | Dir "content_item list"
  | File file_data
and content_item =
    ContentItem (c_type: string) (c_path: string) (c_sha: string) (c_size: nat)
      (c_name: string) (c_listing: content_response)

record url =
  hostname :: string
  pathname :: string

record response =
  ok :: bool
  statusText :: string
  text_body :: "thrown + string"

record world =
  GITHUB_TOKEN :: "string option"
  Date_new :: "nat \<Rightarrow> nat"
  URL_new :: "string \<Rightarrow> thrown + url"
  fetch :: "api_call list \<Rightarrow> string \<Rightarrow> thrown + response"
  base64_to_utf8 :: "string \<Rightarrow> string"
  users_getAuthenticated :: "api_call list \<Rightarrow> thrown + string"
  repos_get :: "api_call list \<Rightarrow> string \<Rightarrow> string \<Rightarrow> thrown + string"
  repos_getContent ::
    "api_call list \<Rightarrow> string \<Rightarrow> string \<Rightarrow> string \<Rightarrow> string option \<Rightarrow> content_response"
  git_getRef :: "api_call list \<Rightarrow> string \<Rightarrow> string \<Rightarrow> string \<Rightarrow> thrown + string"
  git_getTree :: "api_call list \<Rightarrow> string \<Rightarrow> string \<Rightarrow> string \<Rightarrow> thrown + tree_item list"

text \<open>
  \<open>GITHUB_TOKEN\<close> is \<open>process.env.GITHUB_TOKEN\<close>; \<open>Date_new k\<close> is the clock at the
  \<open>k\<close>-th \<open>new Date()\<close> of the invocation; \<open>URL_new\<close> is the runtime's URL parser;
  \<open>base64_to_utf8 c\<close> is \<open>Buffer.from(c, 'base64').toString('utf-8')\<close>; \<open>repos_get\<close>
  returns \<open>data.default_branch\<close>, \<open>users_getAuthenticated\<close> returns \<open>data.login\<close> and
  \<open>git_getRef\<close> returns \<open>data.object.sha\<close>.

  The state threaded through the program: the calls made, the lines written by
  \<open>console.warn\<close>, and the number of clock readings.
\<close>

record state =
  calls :: "api_call list"
  warnings :: "string list"
  clock_reads :: nat

definition log_call :: "api_call \<Rightarrow> state \<Rightarrow> state" where
  "log_call c s = s\<lparr>calls := calls s @ [c]\<rparr>"

definition console_warn :: "string \<Rightarrow> state \<Rightarrow> state" where
  "console_warn line s = s\<lparr>warnings := warnings s @ [line]\<rparr>"

definition or_str :: "string option \<Rightarrow> string \<Rightarrow> string" where
  \<comment> \<open>\<open>x || fallback\<close> for an optional string: \<open>undefined\<close> and the empty string are falsy\<close>
  "or_str x fallback = (case x of None \<Rightarrow> fallback | Some v \<Rightarrow> if v = [] then fallback else v)"

fun String_of :: "thrown \<Rightarrow> string" where
  \<comment> \<open>\<open>String(error)\<close>: the name, then the message when there is one\<close>
  "String_of (Error m) = (if m = [] then ''Error'' else ''Error: '' @ m)"
| "String_of (TypeError m) = (if m = [] then ''TypeError'' else ''TypeError: '' @ m)"
| "String_of (RequestError st m) = (if m = [] then ''HttpError'' else ''HttpError: '' @ m)"
| "String_of (NonError v) = v"

section \<open>services/github.ts: GitHubService\<close>

definition token_required :: string where
  "token_required =
     ''GitHub token is required. Set GITHUB_TOKEN environment variable or pass token to constructor.''"

definition GitHubService_new :: "world \<Rightarrow> string option \<Rightarrow> thrown + unit" where
  \<comment> \<open>the constructor: \<open>(token || process.env.GITHUB_TOKEN)?.trim()\<close> must be non-empty\<close>
  "GitHubService_new W token =
     (let authToken =
            map_option trim
              (case token of
                 None \<Rightarrow> GITHUB_TOKEN W
               | Some t \<Rightarrow> if t = [] then GITHUB_TOKEN W else Some t)
      in case authToken of
           None \<Rightarrow> Inl (Error token_required)
         | Some a \<Rightarrow> if a = [] then Inl (Error token_required) else Inr ())"

record token_info =
  valid :: bool
  user :: "string option"

definition verifyToken :: "world \<Rightarrow> state \<Rightarrow> (thrown + token_info) \<times> state" where
  "verifyToken W s =
     (let s1 = log_call UsersGetAuthenticated s
      in case users_getAuthenticated W (calls s) of
           Inr login \<Rightarrow> (Inr \<lparr>valid = True, user = Some login\<rparr>, s1)
         | Inl error \<Rightarrow>
             if status error = Some 401 then (Inr \<lparr>valid = False, user = None\<rparr>, s1)
             else (Inl error, s1))"

definition getTokenUser :: "world \<Rightarrow> state \<Rightarrow> string option \<times> state" where
  "getTokenUser W s =
     (let s1 = log_call UsersGetAuthenticated s
      in case users_getAuthenticated W (calls s) of
           Inr login \<Rightarrow> (Some login, s1)
         | Inl error \<Rightarrow> (None, s1))"

record access_result =
  accessible :: bool
  reason :: "string option"

definition not_found_reason :: "string option \<Rightarrow> string" where
  "not_found_reason u =
     ''Repository not found or token doesn't have access. Token user: '' @ or_str u ''unknown''
       @ ''. Ensure token has 'repo' scope for private repositories.''"

definition checkRepositoryAccess ::
  "world \<Rightarrow> string \<Rightarrow> string \<Rightarrow> state \<Rightarrow> (thrown + access_result) \<times> state" where
  "checkRepositoryAccess W owner repo s =
     (let s1 = log_call (ReposGet owner repo) s
      in case repos_get W (calls s) owner repo of
           Inr repoData \<Rightarrow> (Inr \<lparr>accessible = True, reason = None\<rparr>, s1)
         | Inl error \<Rightarrow>
             if status error = Some 404 then
               (case verifyToken W s1 of
                  (Inl e, s2) \<Rightarrow> (Inl e, s2)
                | (Inr tokenInfo, s2) \<Rightarrow>
                    if \<not> valid tokenInfo then
                      (Inr \<lparr>accessible = False, reason = Some ''Token is invalid or expired''\<rparr>, s2)
                    else
                      (Inr \<lparr>accessible = False,
                            reason = Some (not_found_reason (user tokenInfo))\<rparr>, s2))
             else
               (Inr \<lparr>accessible = False, reason = Some (message_or error ''Unknown error'')\<rparr>,
                s1))"

fun recursivelyGetFiles ::
  "string \<Rightarrow> string \<Rightarrow> string \<Rightarrow> string \<Rightarrow> content_response \<Rightarrow> tree_item list \<Rightarrow> state
     \<Rightarrow> tree_item list \<times> state"
and recursivelyGetFiles_loop ::
  "string \<Rightarrow> string \<Rightarrow> string \<Rightarrow> content_item list \<Rightarrow> tree_item list \<Rightarrow> state
     \<Rightarrow> tree_item list \<times> state"
where
  "recursivelyGetFiles owner repo dirPath branch (Failed error) files s =
     (files,
      console_warn (''Failed to access directory '' @ dirPath @ '': '' @ error_text error)
        (log_call (ReposGetContent owner repo dirPath (Some branch)) s))"
| "recursivelyGetFiles owner repo dirPath branch (File d) files s =
     (files, log_call (ReposGetContent owner repo dirPath (Some branch)) s)"
| "recursivelyGetFiles owner repo dirPath branch (Dir contents) files s =
     recursivelyGetFiles_loop owner repo branch contents files
       (log_call (ReposGetContent owner repo dirPath (Some branch)) s)"
| "recursivelyGetFiles_loop owner repo branch [] files s = (files, s)"
| "recursivelyGetFiles_loop owner repo branch (ContentItem ty p sh sz nm lst # rest) files s =
     (if ty = ''file'' then
        recursivelyGetFiles_loop owner repo branch rest
          (files @ [\<lparr>item_path = Some p, item_name = Some nm, item_sha = Some sh,
                      item_size = Some sz\<rparr>]) s
      else if ty = ''dir'' then
        (case recursivelyGetFiles owner repo p branch lst files s of
           (files', s') \<Rightarrow> recursivelyGetFiles_loop owner repo branch rest files' s')
      else recursivelyGetFiles_loop owner repo branch rest files s)"

text \<open>
  \<open>recursivelyGetFiles\<close> takes, as \<open>contents\<close>, the answer of \<open>repos.getContent\<close> to the
  listing of \<open>dirPath\<close> at \<open>branch\<close>; its whole body is inside \<open>try\<close> and its \<open>catch\<close>
  only warns, so it has no failing result.  \<open>recursivelyGetFiles_loop\<close> is the
  \<open>for (const item of contents)\<close> loop.
\<close>

definition getRepositoryTree_try ::
  "world \<Rightarrow> string \<Rightarrow> string \<Rightarrow> string \<Rightarrow> state
     \<Rightarrow> (thrown + tree_item list \<times> string) \<times> state" where
  \<comment> \<open>the \<open>try\<close> block of \<open>getRepositoryTree\<close>\<close>
  "getRepositoryTree_try W owner repo path s =
     (let s1 = log_call (ReposGet owner repo) s
      in case repos_get W (calls s) owner repo of
           Inl e \<Rightarrow> (Inl e, s1)
         | Inr defaultBranch \<Rightarrow>
             if path \<noteq> [] then
               (let s2 = log_call (ReposGetContent owner repo path (Some defaultBranch)) s1
                in case repos_getContent W (calls s1) owner repo path (Some defaultBranch) of
                     Failed e \<Rightarrow> (Inl e, s2)
                   | Dir pathData \<Rightarrow>
                       (case recursivelyGetFiles owner repo path defaultBranch
                               (repos_getContent W (calls s2) owner repo path (Some defaultBranch))
                               [] s2 of
                          (allFiles, s3) \<Rightarrow> (Inr (allFiles, defaultBranch), s3))
                   | File pathData \<Rightarrow>
                       (Inr ([\<lparr>item_path = Some (d_path pathData),
                                item_name = Some (d_name pathData),
                                item_sha = Some (d_sha pathData),
                                item_size = Some (d_size pathData)\<rparr>], defaultBranch), s2))
             else
               (let s2 = log_call (GitGetRef owner repo (''heads/'' @ defaultBranch)) s1
                in case git_getRef W (calls s1) owner repo (''heads/'' @ defaultBranch) of
                     Inl e \<Rightarrow> (Inl e, s2)
                   | Inr tree_sha \<Rightarrow>
                       (let s3 = log_call (GitGetTree owner repo tree_sha) s2
                        in case git_getTree W (calls s2) owner repo tree_sha of
                             Inl e \<Rightarrow> (Inl e, s3)
                           | Inr tree \<Rightarrow> (Inr (tree, defaultBranch), s3))))"

definition getRepositoryTree_catch ::
  "world \<Rightarrow> string \<Rightarrow> string \<Rightarrow> thrown \<Rightarrow> state \<Rightarrow> thrown \<times> state" where
  \<comment> \<open>the \<open>catch\<close> block of \<open>getRepositoryTree\<close>: what it throws\<close>
  "getRepositoryTree_catch W owner repo error s =
     (if status error = Some 404 then
        (case getTokenUser W s of
           (u, s1) \<Rightarrow>
             (Error (''Repository '' @ [CHR 0x22] @ owner @ ''/'' @ repo @ [CHR 0x22]
                @ '' not found or access denied. For private repositories, ensure: ''
                @ ''1) Token has 'repo' scope enabled, 2) Token has access to this specific ''
                @ ''repository, 3) Repository name is correct. Current token user: ''
                @ or_str u ''unknown''), s1))
      else if status error = Some 401 then
        (Error (''Authentication failed. Please check your GITHUB_TOKEN is valid and has the ''
           @ ''necessary permissions (especially '' @ [CHR 0x22] @ ''repo'' @ [CHR 0x22]
           @ '' scope for private repositories).''), s)
      else if status error = Some 403 then
        (Error (''Access forbidden. Your token may not have permission to access this ''
           @ ''repository (check '' @ [CHR 0x22] @ ''repo'' @ [CHR 0x22]
           @ '' scope) or you may have hit rate limits.''), s)
      else
        (Error (''Failed to get repository tree: ''
           @ (case message error of
                None \<Rightarrow> String_of error
              | Some m \<Rightarrow> if m = [] then String_of error else m)), s))"

definition getRepositoryTree ::
  "world \<Rightarrow> string \<Rightarrow> string \<Rightarrow> string \<Rightarrow> state
     \<Rightarrow> (thrown + tree_item list \<times> string) \<times> state" where
  "getRepositoryTree W owner repo path s =
     (case checkRepositoryAccess W owner repo s of
        (Inl e, s1) \<Rightarrow> (Inl e, s1)
      | (Inr accessCheck, s1) \<Rightarrow>
          if \<not> accessible accessCheck then
            (Inl (Error (or_str (reason accessCheck)
                           (''Cannot access repository '' @ owner @ ''/'' @ repo))), s1)
          else
            (case getRepositoryTree_try W owner repo path s1 of
               (Inr r, s2) \<Rightarrow> (Inr r, s2)
             | (Inl error, s2) \<Rightarrow>
                 (case getRepositoryTree_catch W owner repo error s2 of
                    (e, s3) \<Rightarrow> (Inl e, s3))))"

record RepositoryFile =
  file_path :: string
  file_size :: nat
  file_lastModified :: nat
  file_sha :: string
  file_downloadUrl :: "string option"

definition itemPath :: "tree_item \<Rightarrow> string" where
  \<comment> \<open>\<open>item.path || item.name || ''\<close>\<close>
  "itemPath item = or_str (item_path item) (or_str (item_name item) [])"

definition raw_url :: "string \<Rightarrow> string \<Rightarrow> string \<Rightarrow> string \<Rightarrow> string" where
  "raw_url owner repo defaultBranch p =
     ''https://raw.githubusercontent.com/'' @ owner @ ''/'' @ repo @ ''/'' @ defaultBranch
       @ ''/'' @ p"

fun scanRepository_loop ::
  "world \<Rightarrow> string \<Rightarrow> string \<Rightarrow> string \<Rightarrow> string list \<Rightarrow> tree_item list \<Rightarrow> RepositoryFile list
     \<Rightarrow> state \<Rightarrow> RepositoryFile list \<times> state" where
  \<comment> \<open>the loop \<open>for (const item of tree)\<close>\<close>
  "scanRepository_loop W owner repo defaultBranch fileExtensions [] files s = (files, s)"
| "scanRepository_loop W owner repo defaultBranch fileExtensions (item # tree) files s =
     (let extension = getFileExtension (itemPath item)
      in if extension \<in> set fileExtensions then
           scanRepository_loop W owner repo defaultBranch fileExtensions tree
             (files @ [\<lparr>file_path = itemPath item,
                         file_size = (case item_size item of None \<Rightarrow> 0 | Some n \<Rightarrow> n),
                         file_lastModified = Date_new W (clock_reads s),
                         file_sha = or_str (item_sha item) [],
                         file_downloadUrl =
                           Some (raw_url owner repo defaultBranch (itemPath item))\<rparr>])
             (s\<lparr>clock_reads := Suc (clock_reads s)\<rparr>)
         else scanRepository_loop W owner repo defaultBranch fileExtensions tree files s)"

definition default_extensions :: "string list" where
  "default_extensions = [''.json'', ''.md'', ''.txt'', ''.yaml'', ''.yml'']"

definition scanRepository_try ::
  "world \<Rightarrow> string \<Rightarrow> string \<Rightarrow> string \<Rightarrow> string list \<Rightarrow> state
     \<Rightarrow> (thrown + RepositoryFile list) \<times> state" where
  \<comment> \<open>the \<open>try\<close> block of \<open>scanRepository\<close>\<close>
  "scanRepository_try W owner repo path fileExtensions s =
     (case verifyToken W s of
        (Inl e, s1) \<Rightarrow> (Inl e, s1)
      | (Inr tokenInfo, s1) \<Rightarrow>
          if \<not> valid tokenInfo then
            (Inl (Error ''GitHub token is invalid or expired. Please check your GITHUB_TOKEN.''),
             s1)
          else
            (case getRepositoryTree W owner repo path s1 of
               (Inl e, s2) \<Rightarrow> (Inl e, s2)
             | (Inr (tree, defaultBranch), s2) \<Rightarrow>
                 (case scanRepository_loop W owner repo defaultBranch fileExtensions tree [] s2 of
                    (files, s3) \<Rightarrow> (Inr files, s3))))"

definition scanRepository ::
  "world \<Rightarrow> string \<Rightarrow> string \<Rightarrow> string \<Rightarrow> string list \<Rightarrow> state
     \<Rightarrow> (thrown + RepositoryFile list) \<times> state" where
  "scanRepository W owner repo path fileExtensions s =
     (case scanRepository_try W owner repo path fileExtensions s of
        (Inr files, s1) \<Rightarrow> (Inr files, s1)
      | (Inl error, s1) \<Rightarrow>
          (Inl (Error (''Failed to scan repository: '' @ error_text error)), s1))"

definition getFileContent_try ::
  "world \<Rightarrow> string \<Rightarrow> string \<Rightarrow> string \<Rightarrow> state \<Rightarrow> (thrown + string) \<times> state" where
  \<comment> \<open>the \<open>try\<close> block of \<open>getFileContent\<close>; the request names no \<open>ref\<close>\<close>
  "getFileContent_try W owner repo path s =
     (let s1 = log_call (ReposGetContent owner repo path None) s
      in case repos_getContent W (calls s) owner repo path None of
           Failed e \<Rightarrow> (Inl e, s1)
         | Dir entries \<Rightarrow> (Inl (Error ''Path points to a directory, not a file''), s1)
         | File d \<Rightarrow>
             if d_type d \<noteq> ''file'' then (Inl (Error ''Path does not point to a file''), s1)
             else (case d_content d of
                     Some c \<Rightarrow>
                       if d_encoding d = Some ''base64'' then (Inr (base64_to_utf8 W c), s1)
                       else (Inl (Error ''File content not available or encoding not supported''),
                             s1)
                   | None \<Rightarrow>
                       (Inl (Error ''File content not available or encoding not supported''),
                        s1)))"

definition getFileContent ::
  "world \<Rightarrow> string \<Rightarrow> string \<Rightarrow> string \<Rightarrow> state \<Rightarrow> (thrown + string) \<times> state" where
  "getFileContent W owner repo path s =
     (case getFileContent_try W owner repo path s of
        (Inr c, s1) \<Rightarrow> (Inr c, s1)
      | (Inl error, s1) \<Rightarrow>
          (Inl (Error (''Failed to get file content: '' @ error_text error)), s1))"

section \<open>tools/scan-repository/handler.ts\<close>

definition repository_format_error :: string where
  "repository_format_error =
     ''Repository must be in format '' @ [CHR 0x22] @ ''owner/repo'' @ [CHR 0x22]
       @ '' (e.g., '' @ [CHR 0x22] @ ''octocat/Hello-World'' @ [CHR 0x22] @ '')''"

definition scanRepositoryHandler ::
  "world \<Rightarrow> string \<Rightarrow> string option \<Rightarrow> string list option \<Rightarrow> state
     \<Rightarrow> (thrown + RepositoryFile list) \<times> state" where
  "scanRepositoryHandler W repository path fileExtensions s =
     (let parts = filter (\<lambda>q. length q > 0) (split_js repository (CHR ''/''))
      in if length parts \<noteq> 2 then (Inl (Error repository_format_error), s)
         else
           let owner = parts ! 0;
               repo = parts ! 1;
               cleanOwner = trim owner;
               cleanRepo = trim repo
           in if cleanOwner = [] \<or> cleanRepo = [] then (Inl (Error repository_format_error), s)
              else
                (case GitHubService_new W None of
                   Inl e \<Rightarrow> (Inl e, s)
                 | Inr githubService \<Rightarrow>
                     let extensions =
                           (case fileExtensions of None \<Rightarrow> default_extensions | Some xs \<Rightarrow> xs)
                     in scanRepository W cleanOwner cleanRepo (or_str path []) extensions s))"

section \<open>tools/parse-document/handler.ts\<close>

definition parseDocumentHandler_try ::
  "world \<Rightarrow> string \<Rightarrow> state \<Rightarrow> (thrown + string \<times> string option) \<times> state" where
  \<comment> \<open>the \<open>try\<close> block of \<open>parseDocumentHandler\<close>: the downloaded \<open>content\<close> and
      \<open>detectedFilePath\<close> (the last path part, \<open>undefined\<close> when there is none)\<close>
  "parseDocumentHandler_try W downloadUrl s =
     (case URL_new W downloadUrl of
        Inl e \<Rightarrow> (Inl e, s)
      | Inr u \<Rightarrow>
          let pathParts = filter (\<lambda>q. length q > 0) (split_js (pathname u) (CHR ''/''));
              detectedFilePath = (if pathParts = [] then None else Some (last pathParts))
          in if hostname u = ''raw.githubusercontent.com'' then
               (if length pathParts \<ge> 4 then
                  let owner = pathParts ! 0;
                      repo = pathParts ! 1;
                      filePath = join (drop 3 pathParts) ''/''
                  in (case GitHubService_new W None of
                        Inl e \<Rightarrow> (Inl e, s)
                      | Inr githubService \<Rightarrow>
                          (case getFileContent W owner repo filePath s of
                             (Inl e, s1) \<Rightarrow> (Inl e, s1)
                           | (Inr c, s1) \<Rightarrow> (Inr (c, detectedFilePath), s1)))
                else (Inl (Error ''Invalid raw.githubusercontent.com URL format''), s))
             else
               (let s1 = log_call (Fetch downloadUrl) s
                in case fetch W (calls s) downloadUrl of
                     Inl e \<Rightarrow> (Inl e, s1)
                   | Inr r \<Rightarrow>
                       if \<not> ok r then
                         (Inl (Error (''Failed to download file from URL: '' @ statusText r)), s1)
                       else (case text_body r of
                               Inl e \<Rightarrow> (Inl e, s1)
                             | Inr c \<Rightarrow> (Inr (c, detectedFilePath), s1))))"

fun is_invalid_url_error :: "thrown \<Rightarrow> bool" where
  \<comment> \<open>\<open>error instanceof TypeError && error.message.includes('Invalid URL')\<close>\<close>
  "is_invalid_url_error (TypeError m) = includes_js m ''Invalid URL''"
| "is_invalid_url_error e = False"

definition parseDocumentHandler_download ::
  "world \<Rightarrow> string \<Rightarrow> state \<Rightarrow> (thrown + string \<times> string option) \<times> state" where
  \<comment> \<open>the \<open>try\<close> block with its \<open>catch\<close>\<close>
  "parseDocumentHandler_download W downloadUrl s =
     (case parseDocumentHandler_try W downloadUrl s of
        (Inr r, s1) \<Rightarrow> (Inr r, s1)
      | (Inl error, s1) \<Rightarrow>
          if is_invalid_url_error error then
            (Inl (Error (''Invalid downloadUrl format: '' @ downloadUrl)), s1)
          else
            (Inl (Error (''Failed to download file from URL: '' @ error_text error)), s1))"

definition parseDocumentHandler ::
  "world \<Rightarrow> 'v libs \<Rightarrow> string \<Rightarrow> DocumentFormat option \<Rightarrow> state
     \<Rightarrow> (thrown + 'v ParsedDocument) \<times> state" where
  "parseDocumentHandler W L downloadUrl fileType s =
     (if downloadUrl = [] then (Inl (Error ''downloadUrl is required''), s)
      else
        (case parseDocumentHandler_download W downloadUrl s of
           (Inl e, s1) \<Rightarrow> (Inl e, s1)
         | (Inr (c, detectedFilePath), s1) \<Rightarrow>
             (parseDocument L c detectedFilePath fileType, s1)))"

section \<open>What a walk is expected to return\<close>

text \<open>
  Written from the specification of the tree walker, not from the code: for each
  directory the immediate children are listed; files are emitted, subdirectories are
  walked depth-first, and a subdirectory whose listing fails contributes no entry and one
  warning.  \<open>reachable_files\<close> are the entries so described and \<open>skip_warnings\<close> the
  warnings, both in the order of the walk.
\<close>

fun reachable_files :: "content_response \<Rightarrow> tree_item list"
and reachable_files_in :: "content_item list \<Rightarrow> tree_item list" where
  "reachable_files (Failed e) = []"
| "reachable_files (File d) = []"
| "reachable_files (Dir entries) = reachable_files_in entries"
| "reachable_files_in [] = []"
| "reachable_files_in (ContentItem ty p sh sz nm lst # rest) =
     (if ty = ''file'' then
        [\<lparr>item_path = Some p, item_name = Some nm, item_sha = Some sh, item_size = Some sz\<rparr>]
      else if ty = ''dir'' then reachable_files lst
      else [])
     @ reachable_files_in rest"

fun skip_warnings :: "string \<Rightarrow> content_response \<Rightarrow> string list"
and skip_warnings_in :: "content_item list \<Rightarrow> string list" where
  "skip_warnings dirPath (Failed e) =
     [''Failed to access directory '' @ dirPath @ '': '' @ error_text e]"
| "skip_warnings dirPath (File d) = []"
| "skip_warnings dirPath (Dir entries) = skip_warnings_in entries"
| "skip_warnings_in [] = []"
| "skip_warnings_in (ContentItem ty p sh sz nm lst # rest) =
     (if ty = ''dir'' then skip_warnings p lst else []) @ skip_warnings_in rest"

section \<open>What the scanner is expected to keep\<close>

text \<open>
  Written from the specification of the file scanner, not from the code: an entry is kept
  when its lowercase path extension, the substring from the last dot, is in the
  allow-list.  \<open>from_last_dot\<close> is that substring (empty when the path has no dot) and
  \<open>lowercase_letter\<close> maps each of the letters A to Z to its lower-case form and leaves
  every other character alone.
\<close>

definition from_last_dot :: "string \<Rightarrow> string" where
  "from_last_dot p =
     (if CHR ''.'' \<in> set p then CHR ''.'' # rev (takeWhile (\<lambda>c. c \<noteq> CHR ''.'') (rev p))
      else [])"

definition lowercase_letter :: "char \<Rightarrow> char" where
  "lowercase_letter c =
     (case map_of (zip ''ABCDEFGHIJKLMNOPQRSTUVWXYZ'' ''abcdefghijklmnopqrstuvwxyz'') c of
        None \<Rightarrow> c
      | Some l \<Rightarrow> l)"

definition lowercase_extension :: "string \<Rightarrow> string" where
  "lowercase_extension p = map lowercase_letter (from_last_dot p)"

section \<open>Scenario fixtures\<close>

text \<open>
  Concrete libraries and worlds on which the theorems below are instantiated.  They stand
  in for the parameters only: a decoder that knows a handful of documents, and a hosting
  API that serves one small repository.
\<close>

definition LF :: string where
  "LF = [CHR 0x0A]"

definition report_md :: string where
  "report_md = ''---'' @ LF @ ''title: Report'' @ LF @ ''---'' @ LF @ LF @ ''Body text'' @ LF"

definition report_body :: string where
  "report_body = LF @ ''Body text'' @ LF"

definition demo_JSON_parse :: "string \<Rightarrow> thrown + string" where
  "demo_JSON_parse t =
     (if t = ''{}'' then Inr ''empty object''
      else if t = ''[1, 2]'' then Inr ''array of 1 and 2''
      else Inl (Error ''Unexpected token''))"

definition demo_yaml_load :: "string \<Rightarrow> thrown + string" where
  "demo_yaml_load t =
     (if t = ''[a: 1]'' then Inr ''sequence of one mapping''
      else if t = ''a: 1'' then Inr ''mapping a to 1''
      else Inl (Error ''bad indentation of a mapping entry''))"

definition demo_matter :: "string \<Rightarrow> thrown + string matter_file" where
  "demo_matter t =
     (if t = report_md
      then Inr \<lparr>m_content = report_body, m_data = [''title'' \<mapsto> ''Report'']\<rparr>
      else Inr \<lparr>m_content = t, m_data = Map.empty\<rparr>)"

definition demo_libs :: "string libs" where
  "demo_libs = \<lparr>JSON_parse = demo_JSON_parse, yaml_load = demo_yaml_load, matter = demo_matter\<rparr>"

definition demo_URL_new :: "string \<Rightarrow> thrown + url" where
  \<comment> \<open>absolute \<open>https\<close> locators made of a host and a path\<close>
  "demo_URL_new t =
     (if prefix ''https://'' t \<and> takeWhile (\<lambda>c. c \<noteq> CHR ''/'') (drop 8 t) \<noteq> []
      then Inr \<lparr>hostname = takeWhile (\<lambda>c. c \<noteq> CHR ''/'') (drop 8 t),
                pathname = (if dropWhile (\<lambda>c. c \<noteq> CHR ''/'') (drop 8 t) = [] then ''/''
                            else dropWhile (\<lambda>c. c \<noteq> CHR ''/'') (drop 8 t))\<rparr>
      else Inl (TypeError ''Invalid URL''))"

definition demo_fetch :: "api_call list \<Rightarrow> string \<Rightarrow> thrown + response" where
  "demo_fetch h t =
     (if t = ''https://example.org/notes.txt''
      then Inr \<lparr>ok = True, statusText = ''OK'', text_body = Inr ''plain notes''\<rparr>
      else Inr \<lparr>ok = False, statusText = ''Not Found'', text_body = Inr []\<rparr>)"

definition demo_base64_to_utf8 :: "string \<Rightarrow> string" where
  "demo_base64_to_utf8 c = (if c = ''aGVsbG8='' then ''hello'' else [])"

definition demo_docs :: content_response where
  \<comment> \<open>the directory \<open>docs\<close>: a file, a subdirectory that cannot be listed, a subdirectory
      with one file, and another file\<close>
  "demo_docs =
     Dir [ContentItem ''file'' ''docs/a.md'' ''sha-a'' 10 ''a.md'' (Failed (NonError [])),
          ContentItem ''dir'' ''docs/private'' ''sha-p'' 0 ''private''
            (Failed (RequestError 403 ''Forbidden'')),
          ContentItem ''dir'' ''docs/sub'' ''sha-s'' 0 ''sub''
            (Dir [ContentItem ''file'' ''docs/sub/b.json'' ''sha-b'' 20 ''b.json''
                    (Failed (NonError []))]),
          ContentItem ''file'' ''docs/z.txt'' ''sha-z'' 30 ''z.txt'' (Failed (NonError []))]"

definition demo_getContent ::
  "api_call list \<Rightarrow> string \<Rightarrow> string \<Rightarrow> string \<Rightarrow> string option \<Rightarrow> content_response" where
  "demo_getContent h owner repo p ref =
     (if p = ''docs'' then demo_docs
      else if p = ''docs/report.md'' then
        File \<lparr>d_type = ''file'', d_path = ''docs/report.md'', d_sha = ''sha-r'', d_size = 5,
              d_name = ''report.md'', d_content = Some ''aGVsbG8='', d_encoding = Some ''base64''\<rparr>
      else Failed (RequestError 404 ''Not Found''))"

definition demo_tree :: "tree_item list" where
  "demo_tree =
     [\<lparr>item_path = Some ''a.md'', item_name = None, item_sha = Some ''sha-a'',
        item_size = Some 10\<rparr>,
      \<lparr>item_path = Some ''b.json'', item_name = None, item_sha = Some ''sha-b'',
        item_size = Some 20\<rparr>,
      \<lparr>item_path = Some ''c.png'', item_name = None, item_sha = Some ''sha-c'',
        item_size = Some 30\<rparr>]"

definition answer_login :: "api_call list \<Rightarrow> thrown + string" where
  "answer_login h = Inr ''octocat''"

definition answer_unauthorized :: "api_call list \<Rightarrow> thrown + string" where
  "answer_unauthorized h = Inl (RequestError 401 ''Bad credentials'')"

definition answer_server_error :: "api_call list \<Rightarrow> thrown + string" where
  "answer_server_error h = Inl (RequestError 500 ''Server Error'')"

definition answer_main :: "api_call list \<Rightarrow> string \<Rightarrow> string \<Rightarrow> thrown + string" where
  "answer_main h owner repo = Inr ''main''"

definition answer_not_found :: "api_call list \<Rightarrow> string \<Rightarrow> string \<Rightarrow> thrown + string" where
  "answer_not_found h owner repo = Inl (RequestError 404 ''Not Found'')"

definition answer_forbidden :: "api_call list \<Rightarrow> string \<Rightarrow> string \<Rightarrow> thrown + string" where
  "answer_forbidden h owner repo = Inl (RequestError 403 ''API rate limit exceeded'')"

definition answer_head :: "api_call list \<Rightarrow> string \<Rightarrow> string \<Rightarrow> string \<Rightarrow> thrown + string" where
  "answer_head h owner repo ref = Inr ''sha-head''"

definition answer_tree ::
  "api_call list \<Rightarrow> string \<Rightarrow> string \<Rightarrow> string \<Rightarrow> thrown + tree_item list" where
  "answer_tree h owner repo tree_sha = Inr demo_tree"

definition demo_clock :: "nat \<Rightarrow> nat" where
  "demo_clock k = 1000 + k"

definition demo_world :: world where
  "demo_world =
     \<lparr>GITHUB_TOKEN = Some ''ghp_demo'',
      Date_new = demo_clock,
      URL_new = demo_URL_new,
      fetch = demo_fetch,
      base64_to_utf8 = demo_base64_to_utf8,
      users_getAuthenticated = answer_login,
      repos_get = answer_main,
      repos_getContent = demo_getContent,
      git_getRef = answer_head,
      git_getTree = answer_tree\<rparr>"

definition world_missing_repo :: world where
  \<comment> \<open>the repository lookup answers 404 and the credential is valid\<close>
  "world_missing_repo = demo_world\<lparr>repos_get := answer_not_found\<rparr>"

definition world_dead_token :: world where
  \<comment> \<open>the repository lookup answers 404 and the identity lookup answers 401\<close>
  "world_dead_token =
     demo_world\<lparr>repos_get := answer_not_found, users_getAuthenticated := answer_unauthorized\<rparr>"

definition world_recheck_fails :: world where
  \<comment> \<open>the repository lookup answers 404 and the identity lookup answers 500\<close>
  "world_recheck_fails =
     demo_world\<lparr>repos_get := answer_not_found, users_getAuthenticated := answer_server_error\<rparr>"

definition world_rate_limited :: world where
  \<comment> \<open>the repository lookup answers 403\<close>
  "world_rate_limited = demo_world\<lparr>repos_get := answer_forbidden\<rparr>"

definition mixed_tree :: "tree_item list" where
  "mixed_tree =
     [\<lparr>item_path = Some ''README.MD'', item_name = None, item_sha = Some ''sha-1'',
        item_size = Some 1\<rparr>,
      \<lparr>item_path = Some ''conf/data.v2.json'', item_name = None, item_sha = Some ''sha-2'',
        item_size = Some 2\<rparr>,
      \<lparr>item_path = Some ''notes.md.bak'', item_name = None, item_sha = Some ''sha-3'',
        item_size = Some 3\<rparr>,
      \<lparr>item_path = Some ''Makefile'', item_name = None, item_sha = Some ''sha-4'',
        item_size = Some 4\<rparr>]"

definition answer_mixed_tree ::
  "api_call list \<Rightarrow> string \<Rightarrow> string \<Rightarrow> string \<Rightarrow> thrown + tree_item list" where
  "answer_mixed_tree h owner repo tree_sha = Inr mixed_tree"

definition world_mixed_names :: world where
  \<comment> \<open>the tree holds upper-case and several-dot names\<close>
  "world_mixed_names = demo_world\<lparr>git_getTree := answer_mixed_tree\<rparr>"

definition answer_silent_failure :: "api_call list \<Rightarrow> string \<Rightarrow> string \<Rightarrow> thrown + string" where
  "answer_silent_failure h owner repo = Inl (RequestError 500 [])"

definition world_silent_failure :: world where
  \<comment> \<open>the repository lookup answers 500 with an empty message\<close>
  "world_silent_failure = demo_world\<lparr>repos_get := answer_silent_failure\<rparr>"

definition s0 :: state where
  "s0 = \<lparr>calls = [], warnings = [], clock_reads = 0\<rparr>"

section \<open>Properties of the format detector and the decoder\<close>

lemma getFileExtension_Nil: "getFileExtension [] = []"
  by (simp add: getFileExtension_def)

lemma detect_from_path_None: "detect_from_path None = None"
  by (simp add: detect_from_path_def)

lemma dash_not_jsonish:
  "startsWith t ''---'' \<Longrightarrow> \<not> startsWith t ''{'' \<and> \<not> startsWith t ''[''"
  by (auto simp: startsWith_def prefix_def)

lemma detectFormat_explicit: "f \<noteq> Auto \<Longrightarrow> detectFormat L c filePath (Some f) = f"
  by (simp add: detectFormat_def)

lemma detectFormat_auto:
  "detectFormat L c filePath None =
     (case detect_from_path filePath of Some g \<Rightarrow> g | None \<Rightarrow> detect_from_content L c)"
  "detectFormat L c filePath (Some Auto) =
     (case detect_from_path filePath of Some g \<Rightarrow> g | None \<Rightarrow> detect_from_content L c)"
  by (simp_all add: detectFormat_def)

lemma detect_from_path_ext:
  "getFileExtension p = ''.json'' \<Longrightarrow> detect_from_path (Some p) = Some Json"
  "getFileExtension p = ''.md'' \<Longrightarrow> detect_from_path (Some p) = Some Markdown"
  "getFileExtension p = ''.markdown'' \<Longrightarrow> detect_from_path (Some p) = Some Markdown"
  "getFileExtension p = ''.yaml'' \<Longrightarrow> detect_from_path (Some p) = Some Yaml"
  "getFileExtension p = ''.yml'' \<Longrightarrow> detect_from_path (Some p) = Some Yaml"
  "getFileExtension p = ''.txt'' \<Longrightarrow> detect_from_path (Some p) = Some Text"
  "getFileExtension p = ''.text'' \<Longrightarrow> detect_from_path (Some p) = Some Text"
  using getFileExtension_Nil by (auto simp: detect_from_path_def Let_def)

lemma detect_from_path_other:
  "getFileExtension p \<notin> {''.json'', ''.md'', ''.markdown'', ''.yaml'', ''.yml'', ''.txt'', ''.text''}
     \<Longrightarrow> detect_from_path (Some p) = None"
  by (auto simp: detect_from_path_def Let_def)

lemma detect_from_content_dash:
  "startsWith (trim c) ''---'' \<Longrightarrow> detect_from_content L c = Markdown"
  using dash_not_jsonish [of "trim c"] by (simp add: detect_from_content_def Let_def)

text \<open>
  Claim C1.  \<open>detectFormat\<close> resolves the format by a priority chain in which the first
  match wins: an explicit format other than \<open>auto\<close> is returned as it is; otherwise a
  supplied file path decides by its extension (\<open>.json\<close>; \<open>.md\<close>, \<open>.markdown\<close>; \<open>.yaml\<close>,
  \<open>.yml\<close>; \<open>.txt\<close>, \<open>.text\<close>), and any other extension, or none, falls through to what
  detection gives without a path; otherwise the trimmed text decides: text starting with
  \<open>{\<close> or \<open>[\<close> that parses as JSON is \<open>json\<close>, text starting with \<open>---\<close> is \<open>markdown\<close>,
  text with a \<open>:\<close> and no \<open>{\<close> that parses as YAML is \<open>yaml\<close>, anything else is \<open>text\<close>.
  Detection is a total function with no failing result; JSON-looking text that does not
  parse as JSON comes out as \<open>yaml\<close> when the YAML test passes and as \<open>text\<close> otherwise.
  The extension is the one \<open>getFileExtension\<close> computes: from the last dot, in lower case.
\<close>

theorem detectFormat_priority_chain:
  "(\<forall>f. explicitFormat = Some f \<and> f \<noteq> Auto \<longrightarrow> detectFormat L c filePath explicitFormat = f)
   \<and> ((explicitFormat = None \<or> explicitFormat = Some Auto) \<longrightarrow>
        (\<forall>p. filePath = Some p \<longrightarrow>
           (getFileExtension p = ''.json'' \<longrightarrow> detectFormat L c filePath explicitFormat = Json)
         \<and> (getFileExtension p \<in> {''.md'', ''.markdown''} \<longrightarrow>
              detectFormat L c filePath explicitFormat = Markdown)
         \<and> (getFileExtension p \<in> {''.yaml'', ''.yml''} \<longrightarrow>
              detectFormat L c filePath explicitFormat = Yaml)
         \<and> (getFileExtension p \<in> {''.txt'', ''.text''} \<longrightarrow>
              detectFormat L c filePath explicitFormat = Text)
         \<and> (getFileExtension p \<notin>
               {''.json'', ''.md'', ''.markdown'', ''.yaml'', ''.yml'', ''.txt'', ''.text''} \<longrightarrow>
              detectFormat L c filePath explicitFormat = detectFormat L c None explicitFormat))
      \<and> (filePath = None \<longrightarrow>
           (let t = trim c;
                json_ok = ((startsWith t ''{'' \<or> startsWith t ''['') \<and> returns (JSON_parse L t));
                yaml_ok = (includes_js t '':'' \<and> \<not> includes_js t ''{'' \<and> returns (yaml_load L t))
            in (json_ok \<longrightarrow> detectFormat L c filePath explicitFormat = Json)
             \<and> (startsWith t ''---'' \<longrightarrow> detectFormat L c filePath explicitFormat = Markdown)
             \<and> (\<not> json_ok \<and> \<not> startsWith t ''---'' \<and> yaml_ok \<longrightarrow>
                  detectFormat L c filePath explicitFormat = Yaml)
             \<and> (\<not> json_ok \<and> \<not> startsWith t ''---'' \<and> \<not> yaml_ok \<longrightarrow>
                  detectFormat L c filePath explicitFormat = Text)
             \<and> ((startsWith t ''{'' \<or> startsWith t ''['') \<and> \<not> returns (JSON_parse L t) \<longrightarrow>
                  detectFormat L c filePath explicitFormat = (if yaml_ok then Yaml else Text)))))"
  unfolding Let_def
proof (intro conjI impI allI)
  fix f assume "explicitFormat = Some f \<and> f \<noteq> Auto"
  then show "detectFormat L c filePath explicitFormat = f"
    by (simp add: detectFormat_explicit)
next
  fix p
  assume a: "explicitFormat = None \<or> explicitFormat = Some Auto" "filePath = Some p"
  from a show "getFileExtension p = ''.json'' \<Longrightarrow> detectFormat L c filePath explicitFormat = Json"
    by (auto simp: detectFormat_auto detect_from_path_ext)
  from a show "getFileExtension p \<in> {''.md'', ''.markdown''} \<Longrightarrow>
      detectFormat L c filePath explicitFormat = Markdown"
    by (auto simp: detectFormat_auto detect_from_path_ext)
  from a show "getFileExtension p \<in> {''.yaml'', ''.yml''} \<Longrightarrow>
      detectFormat L c filePath explicitFormat = Yaml"
    by (auto simp: detectFormat_auto detect_from_path_ext)
  from a show "getFileExtension p \<in> {''.txt'', ''.text''} \<Longrightarrow>
      detectFormat L c filePath explicitFormat = Text"
    by (auto simp: detectFormat_auto detect_from_path_ext)
  from a show "getFileExtension p \<notin>
        {''.json'', ''.md'', ''.markdown'', ''.yaml'', ''.yml'', ''.txt'', ''.text''} \<Longrightarrow>
      detectFormat L c filePath explicitFormat = detectFormat L c None explicitFormat"
    using detect_from_path_other [of p]
    by (auto simp: detectFormat_auto detect_from_path_None)
next
  assume a: "explicitFormat = None \<or> explicitFormat = Some Auto" "filePath = None"
  then have r: "detectFormat L c filePath explicitFormat = detect_from_content L c"
    by (auto simp: detectFormat_auto detect_from_path_None)
  show "(startsWith (trim c) ''{'' \<or> startsWith (trim c) ''['') \<and> returns (JSON_parse L (trim c))
      \<Longrightarrow> detectFormat L c filePath explicitFormat = Json"
    by (simp add: r detect_from_content_def Let_def)
  show "startsWith (trim c) ''---'' \<Longrightarrow> detectFormat L c filePath explicitFormat = Markdown"
    by (simp add: r detect_from_content_dash)
  show "\<not> ((startsWith (trim c) ''{'' \<or> startsWith (trim c) ''['') \<and> returns (JSON_parse L (trim c)))
        \<and> \<not> startsWith (trim c) ''---''
        \<and> includes_js (trim c) '':'' \<and> \<not> includes_js (trim c) ''{'' \<and> returns (yaml_load L (trim c))
      \<Longrightarrow> detectFormat L c filePath explicitFormat = Yaml"
    by (simp add: r detect_from_content_def Let_def)
  show "\<not> ((startsWith (trim c) ''{'' \<or> startsWith (trim c) ''['') \<and> returns (JSON_parse L (trim c)))
        \<and> \<not> startsWith (trim c) ''---''
        \<and> \<not> (includes_js (trim c) '':'' \<and> \<not> includes_js (trim c) ''{'' \<and> returns (yaml_load L (trim c)))
      \<Longrightarrow> detectFormat L c filePath explicitFormat = Text"
    by (simp add: r detect_from_content_def Let_def)
  show "(startsWith (trim c) ''{'' \<or> startsWith (trim c) ''['') \<and> \<not> returns (JSON_parse L (trim c))
      \<Longrightarrow> detectFormat L c filePath explicitFormat =
          (if includes_js (trim c) '':'' \<and> \<not> includes_js (trim c) ''{'' \<and> returns (yaml_load L (trim c))
           then Yaml else Text)"
    using dash_not_jsonish [of "trim c"] by (auto simp add: r detect_from_content_def Let_def)
qed


theorem detectFormat_priority_chain_witness:
  "detectFormat demo_libs ''{}'' (Some ''x.md'') (Some Yaml) = Yaml
   \<and> detectFormat demo_libs ''{}'' (Some ''notes.MD'') None = Markdown
   \<and> detectFormat demo_libs ''[a: 1]'' (Some ''README'') None
       = detectFormat demo_libs ''[a: 1]'' None None
   \<and> detectFormat demo_libs '' {} '' None None = Json
   \<and> detectFormat demo_libs report_md None (Some Auto) = Markdown
   \<and> detectFormat demo_libs ''a: 1'' None None = Yaml
   \<and> detectFormat demo_libs ''hello'' None None = Text
   \<and> detectFormat demo_libs ''[a: 1]'' None None = Yaml
   \<and> detectFormat demo_libs ''{a: 1}'' None None = Text"
proof -
  have c1: "detectFormat demo_libs ''{}'' (Some ''x.md'') (Some Yaml) = Yaml"
    using detectFormat_priority_chain
      [where explicitFormat = "Some Yaml" and L = demo_libs and c = "''{}''"
         and filePath = "Some ''x.md''"]
    by simp
  have e2: "getFileExtension ''notes.MD'' = ''.md''" by code_simp
  have c2: "detectFormat demo_libs ''{}'' (Some ''notes.MD'') None = Markdown"
    using detectFormat_priority_chain
      [where explicitFormat = None and L = demo_libs and c = "''{}''"
         and filePath = "Some ''notes.MD''"] e2
    by simp
  have e3: "getFileExtension ''README'' = []" by code_simp
  have c3: "detectFormat demo_libs ''[a: 1]'' (Some ''README'') None
       = detectFormat demo_libs ''[a: 1]'' None None"
    using detectFormat_priority_chain
      [where explicitFormat = None and L = demo_libs and c = "''[a: 1]''"
         and filePath = "Some ''README''"] e3
    by simp
  have t4: "trim '' {} '' = ''{}''" "startsWith ''{}'' ''{''"
      "returns (JSON_parse demo_libs ''{}'')"
    by code_simp+
  have c4: "detectFormat demo_libs '' {} '' None None = Json"
    using detectFormat_priority_chain
      [where explicitFormat = None and L = demo_libs and c = "'' {} ''" and filePath = None] t4
    by (simp add: Let_def)
  have t5: "startsWith (trim report_md) ''---''" by code_simp
  have c5: "detectFormat demo_libs report_md None (Some Auto) = Markdown"
    using detectFormat_priority_chain
      [where explicitFormat = "Some Auto" and L = demo_libs and c = report_md
         and filePath = None] t5
    by (simp add: Let_def)
  have t6: "trim ''a: 1'' = ''a: 1''" "\<not> startsWith ''a: 1'' ''{''" "\<not> startsWith ''a: 1'' ''[''"
      "\<not> startsWith ''a: 1'' ''---''" "includes_js ''a: 1'' '':''" "\<not> includes_js ''a: 1'' ''{''"
      "returns (yaml_load demo_libs ''a: 1'')"
    by code_simp+
  have c6: "detectFormat demo_libs ''a: 1'' None None = Yaml"
    using detectFormat_priority_chain
      [where explicitFormat = None and L = demo_libs and c = "''a: 1''" and filePath = None] t6
    by (simp add: Let_def)
  have t7: "trim ''hello'' = ''hello''" "\<not> startsWith ''hello'' ''{''"
      "\<not> startsWith ''hello'' ''[''" "\<not> startsWith ''hello'' ''---''"
      "\<not> includes_js ''hello'' '':''"
    by code_simp+
  have c7: "detectFormat demo_libs ''hello'' None None = Text"
    using detectFormat_priority_chain
      [where explicitFormat = None and L = demo_libs and c = "''hello''" and filePath = None] t7
    by (simp add: Let_def)
  have t8: "trim ''[a: 1]'' = ''[a: 1]''" "startsWith ''[a: 1]'' ''[''"
      "\<not> returns (JSON_parse demo_libs ''[a: 1]'')" "includes_js ''[a: 1]'' '':''"
      "\<not> includes_js ''[a: 1]'' ''{''" "returns (yaml_load demo_libs ''[a: 1]'')"
    by code_simp+
  have c8: "detectFormat demo_libs ''[a: 1]'' None None = Yaml"
    using detectFormat_priority_chain
      [where explicitFormat = None and L = demo_libs and c = "''[a: 1]''" and filePath = None] t8
    by (simp add: Let_def)
  have t9: "trim ''{a: 1}'' = ''{a: 1}''" "startsWith ''{a: 1}'' ''{''"
      "\<not> returns (JSON_parse demo_libs ''{a: 1}'')" "includes_js ''{a: 1}'' ''{''"
    by code_simp+
  have c9: "detectFormat demo_libs ''{a: 1}'' None None = Text"
    using detectFormat_priority_chain
      [where explicitFormat = None and L = demo_libs and c = "''{a: 1}''" and filePath = None] t9
    by (simp add: Let_def)
  show ?thesis
    using c1 c2 c3 c4 c5 c6 c7 c8 c9 by simp
qed

lemma parseDocument_explicit:
  "f \<noteq> Auto \<Longrightarrow> parseDocument L c filePath (Some f) =
     (case f of Json \<Rightarrow> parseJSON L c | Markdown \<Rightarrow> parseMarkdown L c
      | Yaml \<Rightarrow> parseYAML L c | Text \<Rightarrow> parseText c | Auto \<Rightarrow> parseText c)"
  by (simp add: parseDocument_def detectFormat_explicit)

text \<open>
  Claim C5.  Decoding with format \<open>json\<close> a text that \<open>JSON.parse\<close> rejects, and decoding
  with format \<open>yaml\<close> a text that \<open>yaml.load\<close> rejects, fails: the result is the thrown
  error \<open>Failed to parse JSON: ...\<close> (or \<open>YAML\<close>) carrying the decoder's message, and no
  document.  The same holds whenever detection, not an explicit format, chose \<open>json\<close> or
  \<open>yaml\<close>.
\<close>

theorem decode_rejects_unparsable_text:
  "(JSON_parse L c = Inl e \<longrightarrow>
      parseDocument L c filePath (Some Json) = Inl (Error (''Failed to parse JSON: '' @ error_text e)))
   \<and> (yaml_load L c = Inl e \<longrightarrow>
      parseDocument L c filePath (Some Yaml) = Inl (Error (''Failed to parse YAML: '' @ error_text e)))
   \<and> (detectFormat L c filePath fmt = Json \<and> JSON_parse L c = Inl e \<longrightarrow>
      parseDocument L c filePath fmt = Inl (Error (''Failed to parse JSON: '' @ error_text e)))
   \<and> (detectFormat L c filePath fmt = Yaml \<and> yaml_load L c = Inl e \<longrightarrow>
      parseDocument L c filePath fmt = Inl (Error (''Failed to parse YAML: '' @ error_text e)))"
  by (simp add: parseDocument_def detectFormat_explicit parseJSON_def parseYAML_def)

theorem decode_rejects_unparsable_text_witness:
  "parseDocument demo_libs ''{a: 1}'' None (Some Json)
     = Inl (Error ''Failed to parse JSON: Unexpected token'')
   \<and> parseDocument demo_libs ''a: [1'' None (Some Yaml)
     = Inl (Error ''Failed to parse YAML: bad indentation of a mapping entry'')
   \<and> parseDocument demo_libs ''{a: 1}'' (Some ''incident.json'') None
     = Inl (Error ''Failed to parse JSON: Unexpected token'')"
proof -
  have j: "JSON_parse demo_libs ''{a: 1}'' = Inl (Error ''Unexpected token'')"
    by (simp add: demo_libs_def demo_JSON_parse_def)
  have y: "yaml_load demo_libs ''a: [1'' = Inl (Error ''bad indentation of a mapping entry'')"
    by (simp add: demo_libs_def demo_yaml_load_def)
  have d: "detectFormat demo_libs ''{a: 1}'' (Some ''incident.json'') None = Json"
    by code_simp
  show ?thesis
    using decode_rejects_unparsable_text
            [where L = demo_libs and c = "''{a: 1}''" and e = "Error ''Unexpected token''"
               and filePath = None]
          decode_rejects_unparsable_text
            [where L = demo_libs and c = "''a: [1''"
               and e = "Error ''bad indentation of a mapping entry''" and filePath = None]
          decode_rejects_unparsable_text
            [where L = demo_libs and c = "''{a: 1}''" and e = "Error ''Unexpected token''"
               and filePath = "Some ''incident.json''" and fmt = None]
          j y d
    by simp
qed

text \<open>
  Claim C6.  The claim ends with: decoding the document with its preamble stripped yields
  no metadata.  The code does not do that.  \<open>parseMarkdown\<close> sets \<open>metadata\<close> to whatever
  \<open>gray-matter\<close> returns as data, with or without a preamble, so every markdown document
  that decodes carries the field; for a text in which the library finds no preamble it is
  the empty mapping.  The other three decoders leave the field out, and the output schema
  of the parse-document tool describes it as only present for markdown files with
  frontmatter.
\<close>

theorem markdown_metadata_always_present:
  "(parseDocument L c filePath (Some Markdown) = Inr d \<longrightarrow> metadata d \<noteq> None)
   \<and> (matter L c = Inr \<lparr>m_content = c, m_data = Map.empty\<rparr> \<longrightarrow>
        parseDocument L c filePath (Some Markdown)
          = Inr \<lparr>format = Markdown, content = Str (trim c), metadata = Some Map.empty,
                 rawContent = c\<rparr>)
   \<and> (parseDocument L c filePath (Some Text) = Inr d \<longrightarrow> metadata d = None)
   \<and> (parseDocument L c filePath (Some Json) = Inr d \<longrightarrow> metadata d = None)
   \<and> (parseDocument L c filePath (Some Yaml) = Inr d \<longrightarrow> metadata d = None)"
  by (auto simp: parseDocument_explicit parseMarkdown_def parseText_def parseJSON_def
        parseYAML_def split: sum.splits)

theorem markdown_metadata_always_present_witness:
  "parseDocument demo_libs report_body None (Some Markdown)
     = Inr \<lparr>format = Markdown, content = Str ''Body text'', metadata = Some Map.empty,
            rawContent = report_body\<rparr>
   \<and> metadata \<lparr>format = Markdown, content = Str ''Body text'', metadata = Some Map.empty,
                rawContent = report_body\<rparr> \<noteq> (None :: (string \<rightharpoonup> string) option)
   \<and> parseDocument demo_libs report_body None (Some Text)
     = Inr \<lparr>format = Text, content = Str ''Body text'', metadata = None,
            rawContent = report_body\<rparr>"
proof -
  have ne: "report_body \<noteq> report_md"
    by (simp add: report_body_def report_md_def LF_def)
  have m: "matter demo_libs report_body = Inr \<lparr>m_content = report_body, m_data = Map.empty\<rparr>"
    using ne by (simp add: demo_libs_def demo_matter_def)
  have t: "trim report_body = ''Body text''"
    by code_simp
  have 1: "parseDocument demo_libs report_body None (Some Markdown)
     = Inr \<lparr>format = Markdown, content = Str ''Body text'', metadata = Some Map.empty,
            rawContent = report_body\<rparr>"
    using markdown_metadata_always_present
            [where L = demo_libs and c = report_body and filePath = None] m t
    by simp
  have 3: "parseDocument demo_libs report_body None (Some Text)
     = (Inr \<lparr>format = Text, content = Str ''Body text'', metadata = None,
            rawContent = report_body\<rparr> :: thrown + string ParsedDocument)"
    using t by (simp add: parseDocument_explicit parseText_def)
  show ?thesis using 1 3 by simp
qed

section \<open>Properties of the repository access guard\<close>

lemma sublist_mid: "sublist xs (ps @ xs @ ss)"
  by (auto simp: sublist_def)

lemma not_found_reason_says_not_found: "includes_js (not_found_reason u) ''not found''"
proof -
  have "not_found_reason u =
      ''Repository '' @ ''not found'' @
        ('' or token doesn't have access. Token user: '' @ or_str u ''unknown''
           @ ''. Ensure token has 'repo' scope for private repositories.'')"
    by (simp add: not_found_reason_def)
  then show ?thesis
    unfolding includes_js_def by (metis sublist_mid)
qed

lemma not_found_reason_names_user: "includes_js (not_found_reason (Some login)) login"
proof (cases "login = []")
  case True
  then show ?thesis by (simp add: includes_js_def)
next
  case False
  then have "not_found_reason (Some login) =
      ''Repository not found or token doesn't have access. Token user: '' @ login
        @ ''. Ensure token has 'repo' scope for private repositories.''"
    by (simp add: not_found_reason_def or_str_def)
  then show ?thesis
    unfolding includes_js_def by (metis sublist_mid)
qed

lemma message_or_nonempty: "fallback \<noteq> [] \<Longrightarrow> message_or e fallback \<noteq> []"
  by (simp add: message_or_def split: option.splits)

lemma not_found_reason_nonempty: "not_found_reason u \<noteq> []"
  by (simp add: not_found_reason_def)

text \<open>
  Claim C2, as stated, promises an \<open>accessible: false\<close> result for every lookup that fails
  with 404.  It does not hold when the credential re-check itself fails: \<open>verifyToken\<close>
  re-throws every failure but a 401, and \<open>checkRepositoryAccess\<close> calls it outside any
  \<open>try\<close>.  In the world below the lookup answers 404 and the identity lookup answers 500;
  the check throws the 500 instead of returning.
\<close>

theorem checkRepositoryAccess_recheck_counterexample:
  "repos_get world_recheck_fails (calls s0) ''owner'' ''nonexistent''
     = Inl (RequestError 404 ''Not Found'')
   \<and> checkRepositoryAccess world_recheck_fails ''owner'' ''nonexistent'' s0
     = (Inl (RequestError 500 ''Server Error''),
        \<lparr>calls = [ReposGet ''owner'' ''nonexistent'', UsersGetAuthenticated], warnings = [],
          clock_reads = 0\<rparr>)"
  by code_simp

text \<open>
  Claim C2, amended.  When the repository lookup fails with 404, the credential is
  re-checked by one identity lookup.  If that lookup is rejected with 401 the check
  returns \<open>accessible: false\<close> with the reason \<open>Token is invalid or expired\<close>; if it returns
  a login the check returns \<open>accessible: false\<close> with a reason that contains \<open>not found\<close>
  and the login; if it fails in any other way the check re-throws that failure.  A lookup
  failure other than 404 yields \<open>accessible: false\<close> with the failure's message as reason
  (\<open>Unknown error\<close> when the failure has no message or an empty one), and no identity
  lookup is made.
\<close>

theorem checkRepositoryAccess_diagnosis:
  "repos_get W (calls s) owner repo = Inl error \<longrightarrow>
     (status error = Some 404
        \<and> users_getAuthenticated W (calls s @ [ReposGet owner repo]) = Inl e
        \<and> status e = Some 401 \<longrightarrow>
      checkRepositoryAccess W owner repo s =
        (Inr \<lparr>accessible = False, reason = Some ''Token is invalid or expired''\<rparr>,
         log_call UsersGetAuthenticated (log_call (ReposGet owner repo) s)))
   \<and> (status error = Some 404
        \<and> users_getAuthenticated W (calls s @ [ReposGet owner repo]) = Inr login \<longrightarrow>
      checkRepositoryAccess W owner repo s =
        (Inr \<lparr>accessible = False, reason = Some (not_found_reason (Some login))\<rparr>,
         log_call UsersGetAuthenticated (log_call (ReposGet owner repo) s))
      \<and> includes_js (not_found_reason (Some login)) ''not found''
      \<and> includes_js (not_found_reason (Some login)) login)
   \<and> (status error = Some 404
        \<and> users_getAuthenticated W (calls s @ [ReposGet owner repo]) = Inl e
        \<and> status e \<noteq> Some 401 \<longrightarrow>
      checkRepositoryAccess W owner repo s =
        (Inl e, log_call UsersGetAuthenticated (log_call (ReposGet owner repo) s)))
   \<and> (status error \<noteq> Some 404 \<longrightarrow>
      checkRepositoryAccess W owner repo s =
        (Inr \<lparr>accessible = False,
              reason = Some (case message error of
                               None \<Rightarrow> ''Unknown error''
                             | Some m \<Rightarrow> if m = [] then ''Unknown error'' else m)\<rparr>,
         log_call (ReposGet owner repo) s))"
  by (simp add: checkRepositoryAccess_def verifyToken_def log_call_def message_or_def
        not_found_reason_says_not_found not_found_reason_names_user)

theorem checkRepositoryAccess_diagnosis_witness:
  "checkRepositoryAccess world_missing_repo ''owner'' ''nonexistent'' s0
     = (Inr \<lparr>accessible = False,
            reason = Some (''Repository not found or token doesn't have access. ''
              @ ''Token user: octocat. Ensure token has 'repo' scope for private repositories.'')\<rparr>,
        \<lparr>calls = [ReposGet ''owner'' ''nonexistent'', UsersGetAuthenticated], warnings = [],
          clock_reads = 0\<rparr>)
   \<and> checkRepositoryAccess world_dead_token ''owner'' ''repo'' s0
     = (Inr \<lparr>accessible = False, reason = Some ''Token is invalid or expired''\<rparr>,
        \<lparr>calls = [ReposGet ''owner'' ''repo'', UsersGetAuthenticated], warnings = [],
          clock_reads = 0\<rparr>)
   \<and> checkRepositoryAccess world_recheck_fails ''owner'' ''repo'' s0
     = (Inl (RequestError 500 ''Server Error''),
        \<lparr>calls = [ReposGet ''owner'' ''repo'', UsersGetAuthenticated], warnings = [],
          clock_reads = 0\<rparr>)
   \<and> checkRepositoryAccess world_rate_limited ''owner'' ''repo'' s0
     = (Inr \<lparr>accessible = False, reason = Some ''API rate limit exceeded''\<rparr>,
        \<lparr>calls = [ReposGet ''owner'' ''repo''], warnings = [], clock_reads = 0\<rparr>)
   \<and> checkRepositoryAccess world_silent_failure ''owner'' ''repo'' s0
     = (Inr \<lparr>accessible = False, reason = Some ''Unknown error''\<rparr>,
        \<lparr>calls = [ReposGet ''owner'' ''repo''], warnings = [], clock_reads = 0\<rparr>)"
proof -
  have w1: "repos_get world_missing_repo (calls s0) ''owner'' ''nonexistent''
              = Inl (RequestError 404 ''Not Found'')"
       "users_getAuthenticated world_missing_repo (calls s0 @ [ReposGet ''owner'' ''nonexistent''])
              = Inr ''octocat''"
    by (simp_all add: world_missing_repo_def demo_world_def answer_not_found_def answer_login_def)
  have w2: "repos_get world_dead_token (calls s0) ''owner'' ''repo''
              = Inl (RequestError 404 ''Not Found'')"
       "users_getAuthenticated world_dead_token (calls s0 @ [ReposGet ''owner'' ''repo''])
              = Inl (RequestError 401 ''Bad credentials'')"
    by (simp_all add: world_dead_token_def demo_world_def answer_not_found_def
          answer_unauthorized_def)
  have w3: "repos_get world_recheck_fails (calls s0) ''owner'' ''repo''
              = Inl (RequestError 404 ''Not Found'')"
       "users_getAuthenticated world_recheck_fails (calls s0 @ [ReposGet ''owner'' ''repo''])
              = Inl (RequestError 500 ''Server Error'')"
    by (simp_all add: world_recheck_fails_def demo_world_def answer_not_found_def
          answer_server_error_def)
  have w4: "repos_get world_rate_limited (calls s0) ''owner'' ''repo''
              = Inl (RequestError 403 ''API rate limit exceeded'')"
    by (simp add: world_rate_limited_def demo_world_def answer_forbidden_def)
  have c1: "checkRepositoryAccess world_missing_repo ''owner'' ''nonexistent'' s0 =
        (Inr \<lparr>accessible = False, reason = Some (not_found_reason (Some ''octocat''))\<rparr>,
         log_call UsersGetAuthenticated (log_call (ReposGet ''owner'' ''nonexistent'') s0))"
    using checkRepositoryAccess_diagnosis
            [where W = world_missing_repo and s = s0 and owner = "''owner''"
               and repo = "''nonexistent''" and error = "RequestError 404 ''Not Found''"
               and login = "''octocat''"] w1
    by simp
  have c2: "checkRepositoryAccess world_dead_token ''owner'' ''repo'' s0 =
        (Inr \<lparr>accessible = False, reason = Some ''Token is invalid or expired''\<rparr>,
         log_call UsersGetAuthenticated (log_call (ReposGet ''owner'' ''repo'') s0))"
    using checkRepositoryAccess_diagnosis
            [where W = world_dead_token and s = s0 and owner = "''owner''"
               and repo = "''repo''" and error = "RequestError 404 ''Not Found''"
               and e = "RequestError 401 ''Bad credentials''"] w2
    by simp
  have c3: "checkRepositoryAccess world_recheck_fails ''owner'' ''repo'' s0 =
        (Inl (RequestError 500 ''Server Error''),
         log_call UsersGetAuthenticated (log_call (ReposGet ''owner'' ''repo'') s0))"
    using checkRepositoryAccess_diagnosis
            [where W = world_recheck_fails and s = s0 and owner = "''owner''"
               and repo = "''repo''" and error = "RequestError 404 ''Not Found''"
               and e = "RequestError 500 ''Server Error''"] w3
    by simp
  have w5: "repos_get world_silent_failure (calls s0) ''owner'' ''repo''
              = Inl (RequestError 500 [])"
    by (simp add: world_silent_failure_def demo_world_def answer_silent_failure_def)
  have c4: "checkRepositoryAccess world_rate_limited ''owner'' ''repo'' s0 =
        (Inr \<lparr>accessible = False, reason = Some ''API rate limit exceeded''\<rparr>,
         log_call (ReposGet ''owner'' ''repo'') s0)"
    using checkRepositoryAccess_diagnosis
            [where W = world_rate_limited and s = s0 and owner = "''owner''"
               and repo = "''repo''" and error = "RequestError 403 ''API rate limit exceeded''"] w4
    by simp
  have c5: "checkRepositoryAccess world_silent_failure ''owner'' ''repo'' s0 =
        (Inr \<lparr>accessible = False, reason = Some ''Unknown error''\<rparr>,
         log_call (ReposGet ''owner'' ''repo'') s0)"
    using checkRepositoryAccess_diagnosis
            [where W = world_silent_failure and s = s0 and owner = "''owner''"
               and repo = "''repo''" and error = "RequestError 500 []"] w5
    by simp
  show ?thesis
    unfolding c1 c2 c3 c4 c5
    by (simp add: not_found_reason_def or_str_def log_call_def s0_def)
qed

section \<open>Properties of the tree walker\<close>

lemma checkRepositoryAccess_reason:
  "checkRepositoryAccess W owner repo s = (Inr a, s1) \<Longrightarrow> \<not> accessible a \<Longrightarrow>
     \<exists>r. reason a = Some r \<and> r \<noteq> []"
  by (auto simp: checkRepositoryAccess_def verifyToken_def Let_def message_or_nonempty
        not_found_reason_nonempty
      split: sum.splits if_splits prod.splits)

lemma checkRepositoryAccess_calls:
  "checkRepositoryAccess W owner repo s = (r, s1) \<Longrightarrow>
     warnings s1 = warnings s \<and> clock_reads s1 = clock_reads s \<and>
     (calls s1 = calls s @ [ReposGet owner repo]
      \<or> calls s1 = calls s @ [ReposGet owner repo, UsersGetAuthenticated])"
  by (auto simp: checkRepositoryAccess_def verifyToken_def Let_def log_call_def
      split: sum.splits if_splits prod.splits)

text \<open>
  Claim C4.  When \<open>checkRepositoryAccess\<close> reports the repository inaccessible,
  \<open>getRepositoryTree\<close> throws an error whose message is the guard's reason, and it stops
  there: its final state is the guard's own final state, so the only calls made are the
  guard's repository lookup and, after a 404, its identity lookup.  No branch is resolved,
  no tree or content is requested, nothing is logged and no listing is returned.
\<close>

theorem getRepositoryTree_fails_fast:
  "checkRepositoryAccess W owner repo s = (Inr a, s1) \<and> \<not> accessible a \<longrightarrow>
     (\<exists>r. reason a = Some r \<and> r \<noteq> []
        \<and> getRepositoryTree W owner repo path s = (Inl (Error r), s1))
     \<and> warnings s1 = warnings s
     \<and> (calls s1 = calls s @ [ReposGet owner repo]
        \<or> calls s1 = calls s @ [ReposGet owner repo, UsersGetAuthenticated])"
proof (intro impI, elim conjE)
  assume a: "checkRepositoryAccess W owner repo s = (Inr a, s1)" and n: "\<not> accessible a"
  from checkRepositoryAccess_reason [OF a n] obtain r where r: "reason a = Some r" "r \<noteq> []"
    by blast
  have "getRepositoryTree W owner repo path s = (Inl (Error r), s1)"
    using a n r by (simp add: getRepositoryTree_def or_str_def)
  with r checkRepositoryAccess_calls [OF a]
  show "(\<exists>r. reason a = Some r \<and> r \<noteq> []
        \<and> getRepositoryTree W owner repo path s = (Inl (Error r), s1))
     \<and> warnings s1 = warnings s
     \<and> (calls s1 = calls s @ [ReposGet owner repo]
        \<or> calls s1 = calls s @ [ReposGet owner repo, UsersGetAuthenticated])"
    by blast
qed

theorem getRepositoryTree_fails_fast_witness:
  "getRepositoryTree world_missing_repo ''owner'' ''nonexistent'' ''docs'' s0
     = (Inl (Error (''Repository not found or token doesn't have access. ''
              @ ''Token user: octocat. Ensure token has 'repo' scope for private repositories.'')),
        \<lparr>calls = [ReposGet ''owner'' ''nonexistent'', UsersGetAuthenticated], warnings = [],
          clock_reads = 0\<rparr>)
   \<and> getRepositoryTree world_rate_limited ''owner'' ''repo'' [] s0
     = (Inl (Error ''API rate limit exceeded''),
        \<lparr>calls = [ReposGet ''owner'' ''repo''], warnings = [], clock_reads = 0\<rparr>)"
proof -
  let ?r1 = "''Repository not found or token doesn't have access. ''
              @ ''Token user: octocat. Ensure token has 'repo' scope for private repositories.''"
  let ?t1 = "\<lparr>calls = [ReposGet ''owner'' ''nonexistent'', UsersGetAuthenticated], warnings = [],
               clock_reads = 0\<rparr>"
  let ?t2 = "\<lparr>calls = [ReposGet ''owner'' ''repo''], warnings = [], clock_reads = 0\<rparr>"
  have a1: "checkRepositoryAccess world_missing_repo ''owner'' ''nonexistent'' s0
              = (Inr \<lparr>accessible = False, reason = Some ?r1\<rparr>, ?t1)"
    by code_simp
  have a2: "checkRepositoryAccess world_rate_limited ''owner'' ''repo'' s0
              = (Inr \<lparr>accessible = False, reason = Some ''API rate limit exceeded''\<rparr>, ?t2)"
    by code_simp
  have 1: "getRepositoryTree world_missing_repo ''owner'' ''nonexistent'' ''docs'' s0
             = (Inl (Error ?r1), ?t1)"
    using getRepositoryTree_fails_fast
            [where W = world_missing_repo and owner = "''owner''" and repo = "''nonexistent''"
               and s = s0 and a = "\<lparr>accessible = False, reason = Some ?r1\<rparr>" and ?s1.0 = ?t1
               and path = "''docs''"] a1
    by auto
  have 2: "getRepositoryTree world_rate_limited ''owner'' ''repo'' [] s0
             = (Inl (Error ''API rate limit exceeded''), ?t2)"
    using getRepositoryTree_fails_fast
            [where W = world_rate_limited and owner = "''owner''" and repo = "''repo''"
               and s = s0
               and a = "\<lparr>accessible = False, reason = Some ''API rate limit exceeded''\<rparr>"
               and ?s1.0 = ?t2 and path = "[]"] a2
    by auto
  show ?thesis using 1 2 by simp
qed

lemma walk_files_and_warnings:
  "fst (recursivelyGetFiles owner repo dirPath branch contents files s)
     = files @ reachable_files contents
   \<and> warnings (snd (recursivelyGetFiles owner repo dirPath branch contents files s))
     = warnings s @ skip_warnings dirPath contents"
  "fst (recursivelyGetFiles_loop owner repo branch entries files s)
     = files @ reachable_files_in entries
   \<and> warnings (snd (recursivelyGetFiles_loop owner repo branch entries files s))
     = warnings s @ skip_warnings_in entries"
proof (induction owner repo dirPath branch contents files s
         and owner repo branch entries files s
       rule: recursivelyGetFiles_recursivelyGetFiles_loop.induct)
  case (5 owner repo branch ty p sh sz nm lst rest files s)
  show ?case
  proof (cases "ty = ''file''")
    case True
    with 5 show ?thesis by simp
  next
    case nf: False
    show ?thesis
    proof (cases "ty = ''dir''")
      case True
      obtain files' s' where w: "recursivelyGetFiles owner repo p branch lst files s = (files', s')"
        by (cases "recursivelyGetFiles owner repo p branch lst files s")
      from 5(2) [OF nf True] w
      have a: "files' = files @ reachable_files lst" "warnings s' = warnings s @ skip_warnings p lst"
        by simp_all
      from 5(3) [OF nf True w [symmetric]]
      have b: "fst (recursivelyGetFiles_loop owner repo branch rest files' s')
                 = files' @ reachable_files_in rest"
              "warnings (snd (recursivelyGetFiles_loop owner repo branch rest files' s'))
                 = warnings s' @ skip_warnings_in rest"
        by simp_all
      show ?thesis using nf True w a b by simp
    next
      case False
      with nf 5 show ?thesis by simp
    qed
  qed
qed (simp_all add: console_warn_def log_call_def)

lemma reachable_files_in_append:
  "reachable_files_in (xs @ ys) = reachable_files_in xs @ reachable_files_in ys"
proof (induction xs)
  case Nil
  show ?case by simp
next
  case (Cons x xs)
  then show ?case by (cases x) simp
qed

lemma skip_warnings_in_append:
  "skip_warnings_in (xs @ ys) = skip_warnings_in xs @ skip_warnings_in ys"
proof (induction xs)
  case Nil
  show ?case by simp
next
  case (Cons x xs)
  then show ?case by (cases x) simp
qed

text \<open>
  Claim C3.  A walk below a directory returns, after the entries it already had, exactly
  \<open>reachable_files\<close> of what the API answers, and logs exactly \<open>skip_warnings\<close>: every
  subdirectory whose listing fails, at any depth, contributes no entry and one warning.
  In particular the entries of a walk are the same as if a failing subdirectory were
  missing from its parent's listing, the entries listed before and after it are kept, and
  its warning stands between theirs.  The walk has no failing result; and when the access
  check passes, the branch resolves and the root path is a directory, \<open>getRepositoryTree\<close>
  returns these entries as its normal result.
\<close>

theorem nested_listing_failure_is_skipped:
  "fst (recursivelyGetFiles owner repo dirPath branch contents files s)
       = files @ reachable_files contents
   \<and> warnings (snd (recursivelyGetFiles owner repo dirPath branch contents files s))
       = warnings s @ skip_warnings dirPath contents
   \<and> fst (recursivelyGetFiles owner repo dirPath branch
            (Dir (before @ ContentItem ''dir'' p sh sz nm (Failed e) # after)) files s)
       = fst (recursivelyGetFiles owner repo dirPath branch (Dir (before @ after)) files s)
   \<and> warnings (snd (recursivelyGetFiles owner repo dirPath branch
            (Dir (before @ ContentItem ''dir'' p sh sz nm (Failed e) # after)) files s))
       = warnings s @ skip_warnings_in before
           @ [''Failed to access directory '' @ p @ '': '' @ error_text e]
           @ skip_warnings_in after
   \<and> (checkRepositoryAccess W owner repo s = (Inr a, s1) \<and> accessible a
        \<and> repos_get W (calls s1) owner repo = Inr branch
        \<and> dirPath \<noteq> []
        \<and> repos_getContent W (calls s1 @ [ReposGet owner repo]) owner repo dirPath (Some branch)
            = Dir entries \<longrightarrow>
      fst (getRepositoryTree W owner repo dirPath s)
        = Inr (reachable_files
                 (repos_getContent W
                    (calls s1 @ [ReposGet owner repo,
                                 ReposGetContent owner repo dirPath (Some branch)])
                    owner repo dirPath (Some branch)),
               branch))"
proof (intro conjI impI)
  assume h: "checkRepositoryAccess W owner repo s = (Inr a, s1) \<and> accessible a
        \<and> repos_get W (calls s1) owner repo = Inr branch
        \<and> dirPath \<noteq> []
        \<and> repos_getContent W (calls s1 @ [ReposGet owner repo]) owner repo dirPath (Some branch)
            = Dir entries"
  let ?s2 = "log_call (ReposGetContent owner repo dirPath (Some branch))
               (log_call (ReposGet owner repo) s1)"
  let ?r = "repos_getContent W (calls ?s2) owner repo dirPath (Some branch)"
  obtain fs s3 where w: "recursivelyGetFiles owner repo dirPath branch ?r [] ?s2 = (fs, s3)"
    by (cases "recursivelyGetFiles owner repo dirPath branch ?r [] ?s2")
  from walk_files_and_warnings(1) [of owner repo dirPath branch ?r "[]" ?s2] w
  have fs: "fs = reachable_files ?r" by simp
  have "getRepositoryTree_try W owner repo dirPath s1 = (Inr (fs, branch), s3)"
    using h w by (simp add: getRepositoryTree_try_def Let_def log_call_def)
  then have "getRepositoryTree W owner repo dirPath s = (Inr (fs, branch), s3)"
    using h by (simp add: getRepositoryTree_def)
  then show "fst (getRepositoryTree W owner repo dirPath s)
        = Inr (reachable_files
                 (repos_getContent W
                    (calls s1 @ [ReposGet owner repo,
                                 ReposGetContent owner repo dirPath (Some branch)])
                    owner repo dirPath (Some branch)),
               branch)"
    using fs by (simp add: log_call_def)
qed (simp_all add: walk_files_and_warnings reachable_files_in_append skip_warnings_in_append
      log_call_def)

theorem nested_listing_failure_is_skipped_witness:
  "fst (getRepositoryTree demo_world ''owner'' ''repo'' ''docs'' s0)
     = Inr ([\<lparr>item_path = Some ''docs/a.md'', item_name = Some ''a.md'',
               item_sha = Some ''sha-a'', item_size = Some 10\<rparr>,
             \<lparr>item_path = Some ''docs/sub/b.json'', item_name = Some ''b.json'',
               item_sha = Some ''sha-b'', item_size = Some 20\<rparr>,
             \<lparr>item_path = Some ''docs/z.txt'', item_name = Some ''z.txt'',
               item_sha = Some ''sha-z'', item_size = Some 30\<rparr>], ''main'')
   \<and> warnings (snd (getRepositoryTree demo_world ''owner'' ''repo'' ''docs'' s0))
     = [''Failed to access directory docs/private: Forbidden'']"
proof -
  let ?s1 = "\<lparr>calls = [ReposGet ''owner'' ''repo''], warnings = [], clock_reads = 0\<rparr>"
  have a: "checkRepositoryAccess demo_world ''owner'' ''repo'' s0
             = (Inr \<lparr>accessible = True, reason = None\<rparr>, ?s1)"
    by code_simp
  have b: "repos_get demo_world (calls ?s1) ''owner'' ''repo'' = Inr ''main''"
    by code_simp
  have c: "repos_getContent demo_world h ''owner'' ''repo'' ''docs'' (Some ''main'') = demo_docs"
    for h
    by (simp add: demo_world_def demo_getContent_def)
  have d: "reachable_files demo_docs
     = [\<lparr>item_path = Some ''docs/a.md'', item_name = Some ''a.md'',
               item_sha = Some ''sha-a'', item_size = Some 10\<rparr>,
             \<lparr>item_path = Some ''docs/sub/b.json'', item_name = Some ''b.json'',
               item_sha = Some ''sha-b'', item_size = Some 20\<rparr>,
             \<lparr>item_path = Some ''docs/z.txt'', item_name = Some ''z.txt'',
               item_sha = Some ''sha-z'', item_size = Some 30\<rparr>]"
    by code_simp
  have 1: "fst (getRepositoryTree demo_world ''owner'' ''repo'' ''docs'' s0)
             = Inr (reachable_files demo_docs, ''main'')"
    using nested_listing_failure_is_skipped
            [where W = demo_world and owner = "''owner''" and repo = "''repo''" and s = s0
               and a = "\<lparr>accessible = True, reason = None\<rparr>" and ?s1.0 = ?s1
               and branch = "''main''" and dirPath = "''docs''"]
          a b c
    by (simp add: demo_docs_def)
  have 2: "warnings (snd (getRepositoryTree demo_world ''owner'' ''repo'' ''docs'' s0))
     = [''Failed to access directory docs/private: Forbidden'']"
    by code_simp
  show ?thesis using 1 2 unfolding d by simp
qed

section \<open>Properties of the file scanner\<close>

lemma scanRepository_loop_result:
  "scanRepository_loop W owner repo branch exts tree files s =
     (files @ map (\<lambda>(k, item).
                \<lparr>file_path = itemPath item,
                 file_size = (case item_size item of None \<Rightarrow> 0 | Some n \<Rightarrow> n),
                 file_lastModified = Date_new W k,
                 file_sha = or_str (item_sha item) [],
                 file_downloadUrl = Some (raw_url owner repo branch (itemPath item))\<rparr>)
              (enumerate (clock_reads s)
                 (filter (\<lambda>item. getFileExtension (itemPath item) \<in> set exts) tree)),
      s\<lparr>clock_reads := clock_reads s
            + length (filter (\<lambda>item. getFileExtension (itemPath item) \<in> set exts) tree)\<rparr>)"
proof (induction tree arbitrary: files s)
  case Nil
  show ?case by simp
next
  case (Cons item tree)
  show ?case
    by (simp add: Cons.IH Let_def)
qed

lemma lower_char_by_range:
  "\<forall>c. if (of_char c :: nat) < 128 then lower_char c = lowercase_letter c
       else 128 \<le> (of_char (lower_char c) :: nat) \<and> lowercase_letter c = c"
  by code_simp

lemma lower_char_ascii_target:
  assumes "(of_char b :: nat) < 128"
  shows "(lower_char c = b) = (lowercase_letter c = b)"
proof (cases "(of_char c :: nat) < 128")
  case True
  with lower_char_by_range show ?thesis by metis
next
  case False
  with lower_char_by_range
  have h: "128 \<le> (of_char (lower_char c) :: nat)" "lowercase_letter c = c" by metis+
  from h(1) assms have "lower_char c \<noteq> b" by auto
  moreover from False assms h(2) have "lowercase_letter c \<noteq> b" by auto
  ultimately show ?thesis by simp
qed

lemma map_lower_char_ascii_target:
  "\<forall>b \<in> set t. (of_char b :: nat) < 128 \<Longrightarrow>
     (map lower_char xs = t) = (map lowercase_letter xs = t)"
proof (induction xs arbitrary: t)
  case Nil
  show ?case by simp
next
  case (Cons x xs)
  show ?case
  proof (cases t)
    case Nil
    then show ?thesis by simp
  next
    case (Cons b t')
    with Cons.prems have "(of_char b :: nat) < 128" "\<forall>b \<in> set t'. (of_char b :: nat) < 128"
      by simp_all
    with Cons.IH [of t'] lower_char_ascii_target [of b x] Cons show ?thesis by simp
  qed
qed

lemma lastIndexOf_absent: "(lastIndexOf xs c = - 1) = (c \<notin> set xs)"
  and lastIndexOf_lower: "- 1 \<le> lastIndexOf xs c"
  by (induction xs) (auto simp: Let_def)

lemma substring_lastIndexOf:
  "c \<in> set xs \<Longrightarrow>
     substring xs (lastIndexOf xs c) = c # rev (takeWhile (\<lambda>d. d \<noteq> c) (rev xs))"
proof (induction xs)
  case Nil
  then show ?case by simp
next
  case (Cons x xs)
  show ?case
  proof (cases "c \<in> set xs")
    case True
    with lastIndexOf_absent [of xs c] lastIndexOf_lower [of xs c]
    have r: "0 \<le> lastIndexOf xs c" by simp
    then have "nat (lastIndexOf xs c + 1) = Suc (nat (lastIndexOf xs c))" by simp
    with True Cons.IH r lastIndexOf_absent [of xs c] show ?thesis
      by (simp add: substring_def Let_def takeWhile_append1 [of c])
  next
    case False
    with Cons.prems have x: "x = c" by simp
    from False have "takeWhile (\<lambda>d. d \<noteq> c) (rev xs @ [c]) = rev xs"
      by (subst takeWhile_append2) auto
    with x False lastIndexOf_absent [of xs c] show ?thesis
      by (simp add: substring_def Let_def)
  qed
qed

lemma getFileExtension_from_last_dot:
  "getFileExtension p = map lower_char (from_last_dot p)"
  using lastIndexOf_absent [of p "CHR ''.''"] substring_lastIndexOf [of "CHR ''.''" p]
  by (auto simp: getFileExtension_def from_last_dot_def toLowerCase_def Let_def)

lemma allowed_extension_iff:
  "(getFileExtension p \<in> {''.json'', ''.md'', ''.txt'', ''.yaml'', ''.yml''})
     = (lowercase_extension p \<in> {''.json'', ''.md'', ''.txt'', ''.yaml'', ''.yml''})"
  unfolding getFileExtension_from_last_dot lowercase_extension_def
  by (simp add: map_lower_char_ascii_target)


text \<open>
  Claim C7.  With a valid credential and a tree returned by the walker, a scan with the
  default allow-list returns, in the order of the tree, exactly the entries whose
  lowercase extension, the substring of the path from its last dot with A to Z in lower
  case, is \<open>.json\<close>, \<open>.md\<close>, \<open>.txt\<close>, \<open>.yaml\<close> or \<open>.yml\<close>, each with the download URL
  \<open>https://raw.githubusercontent.com/{owner}/{repo}/{defaultBranch}/{path}\<close>.  The path of
  an entry is \<open>item.path\<close> (\<open>item.name\<close> when the path is missing or empty).  The first
  scenario is a repository holding \<open>a.md\<close>, \<open>b.json\<close> and \<open>c.png\<close>, scanned through the
  handler with no path and no extensions; the second has an upper-case extension and
  names with several dots.
\<close>

theorem scanRepository_default_allow_list:
  "verifyToken W s = (Inr t, s1) \<and> valid t
   \<and> getRepositoryTree W owner repo path s1 = (Inr (tree, branch), s2) \<longrightarrow>
     fst (scanRepository W owner repo path [''.json'', ''.md'', ''.txt'', ''.yaml'', ''.yml''] s) =
       Inr (map (\<lambda>(k, item).
                   \<lparr>file_path = itemPath item,
                    file_size = (case item_size item of None \<Rightarrow> 0 | Some n \<Rightarrow> n),
                    file_lastModified = Date_new W k,
                    file_sha = or_str (item_sha item) [],
                    file_downloadUrl =
                      Some (''https://raw.githubusercontent.com/'' @ owner @ ''/'' @ repo @ ''/''
                              @ branch @ ''/'' @ itemPath item)\<rparr>)
              (enumerate (clock_reads s2)
                 (filter (\<lambda>item. lowercase_extension (itemPath item)
                                   \<in> {''.json'', ''.md'', ''.txt'', ''.yaml'', ''.yml''})
                    tree)))"
proof -
  have f: "filter (\<lambda>item. getFileExtension (itemPath item)
                             \<in> set [''.json'', ''.md'', ''.txt'', ''.yaml'', ''.yml'']) tree
         = filter (\<lambda>item. lowercase_extension (itemPath item)
                             \<in> {''.json'', ''.md'', ''.txt'', ''.yaml'', ''.yml''}) tree"
    using allowed_extension_iff by (intro filter_cong) auto
  show ?thesis
    unfolding f [symmetric]
    by (simp add: scanRepository_def scanRepository_try_def scanRepository_loop_result
          raw_url_def)
qed

theorem scanRepository_default_allow_list_witness:
  "fst (scanRepositoryHandler demo_world ''owner/repo'' None None s0) =
     Inr [\<lparr>file_path = ''a.md'', file_size = 10, file_lastModified = 1000, file_sha = ''sha-a'',
            file_downloadUrl = Some ''https://raw.githubusercontent.com/owner/repo/main/a.md''\<rparr>,
          \<lparr>file_path = ''b.json'', file_size = 20, file_lastModified = 1001, file_sha = ''sha-b'',
            file_downloadUrl = Some ''https://raw.githubusercontent.com/owner/repo/main/b.json''\<rparr>]
   \<and> fst (scanRepository world_mixed_names ''owner'' ''repo'' []
              [''.json'', ''.md'', ''.txt'', ''.yaml'', ''.yml''] s0) =
     Inr [\<lparr>file_path = ''README.MD'', file_size = 1, file_lastModified = 1000,
            file_sha = ''sha-1'',
            file_downloadUrl =
              Some ''https://raw.githubusercontent.com/owner/repo/main/README.MD''\<rparr>,
          \<lparr>file_path = ''conf/data.v2.json'', file_size = 2, file_lastModified = 1001,
            file_sha = ''sha-2'',
            file_downloadUrl =
              Some ''https://raw.githubusercontent.com/owner/repo/main/conf/data.v2.json''\<rparr>]"
proof -
  let ?exts = "[''.json'', ''.md'', ''.txt'', ''.yaml'', ''.yml'']"
  let ?s1 = "\<lparr>calls = [UsersGetAuthenticated], warnings = [], clock_reads = 0\<rparr>"
  let ?s2 = "\<lparr>calls = [UsersGetAuthenticated, ReposGet ''owner'' ''repo'',
                        ReposGet ''owner'' ''repo'', GitGetRef ''owner'' ''repo'' ''heads/main'',
                        GitGetTree ''owner'' ''repo'' ''sha-head''],
              warnings = [], clock_reads = 0\<rparr>"
  have v: "verifyToken demo_world s0 = (Inr \<lparr>valid = True, user = Some ''octocat''\<rparr>, ?s1)"
    and v': "verifyToken world_mixed_names s0
               = (Inr \<lparr>valid = True, user = Some ''octocat''\<rparr>, ?s1)"
    by code_simp+
  have g: "getRepositoryTree demo_world ''owner'' ''repo'' [] ?s1 = (Inr (demo_tree, ''main''), ?s2)"
    and g': "getRepositoryTree world_mixed_names ''owner'' ''repo'' [] ?s1
               = (Inr (mixed_tree, ''main''), ?s2)"
    by code_simp+
  have h: "scanRepositoryHandler demo_world ''owner/repo'' None None s0
             = scanRepository demo_world ''owner'' ''repo'' [] ?exts s0"
    by code_simp
  have e: "lowercase_extension ''a.md'' = ''.md''" "lowercase_extension ''b.json'' = ''.json''"
      "lowercase_extension ''c.png'' = ''.png''" "lowercase_extension ''README.MD'' = ''.md''"
      "lowercase_extension ''conf/data.v2.json'' = ''.json''"
      "lowercase_extension ''notes.md.bak'' = ''.bak''" "lowercase_extension ''Makefile'' = []"
    by code_simp+
  have d: "Date_new demo_world = demo_clock" "Date_new world_mixed_names = demo_clock"
    by (simp_all add: world_mixed_names_def demo_world_def)
  have 1: "fst (scanRepository demo_world ''owner'' ''repo'' [] ?exts s0) =
     Inr [\<lparr>file_path = ''a.md'', file_size = 10, file_lastModified = 1000, file_sha = ''sha-a'',
            file_downloadUrl = Some ''https://raw.githubusercontent.com/owner/repo/main/a.md''\<rparr>,
          \<lparr>file_path = ''b.json'', file_size = 20, file_lastModified = 1001, file_sha = ''sha-b'',
            file_downloadUrl = Some ''https://raw.githubusercontent.com/owner/repo/main/b.json''\<rparr>]"
    using scanRepository_default_allow_list
            [where W = demo_world and s = s0 and t = "\<lparr>valid = True, user = Some ''octocat''\<rparr>"
               and ?s1.0 = ?s1 and owner = "''owner''" and repo = "''repo''" and path = "[]"
               and tree = demo_tree and branch = "''main''" and ?s2.0 = ?s2] v g e d
    by (simp add: demo_tree_def itemPath_def or_str_def enumerate_eq_zip demo_clock_def)
  have 2: "fst (scanRepository world_mixed_names ''owner'' ''repo'' [] ?exts s0) =
     Inr [\<lparr>file_path = ''README.MD'', file_size = 1, file_lastModified = 1000,
            file_sha = ''sha-1'',
            file_downloadUrl =
              Some ''https://raw.githubusercontent.com/owner/repo/main/README.MD''\<rparr>,
          \<lparr>file_path = ''conf/data.v2.json'', file_size = 2, file_lastModified = 1001,
            file_sha = ''sha-2'',
            file_downloadUrl =
              Some ''https://raw.githubusercontent.com/owner/repo/main/conf/data.v2.json''\<rparr>]"
    using scanRepository_default_allow_list
            [where W = world_mixed_names and s = s0
               and t = "\<lparr>valid = True, user = Some ''octocat''\<rparr>"
               and ?s1.0 = ?s1 and owner = "''owner''" and repo = "''repo''" and path = "[]"
               and tree = mixed_tree and branch = "''main''" and ?s2.0 = ?s2] v' g' e d
    by (simp add: mixed_tree_def itemPath_def or_str_def enumerate_eq_zip demo_clock_def)
  show ?thesis using 1 2 unfolding h by simp
qed

lemma scanRepository_error_prefix:
  "scanRepository W owner repo p exts s = (Inl e, s1) \<Longrightarrow>
     \<exists>m. e = Error (''Failed to scan repository: '' @ m)"
  by (auto simp: scanRepository_def split: prod.splits sum.splits)

lemma scanRepository_not_format_error:
  "fst (scanRepository W owner repo p exts s) \<noteq> Inl (Error repository_format_error)"
proof
  assume a: "fst (scanRepository W owner repo p exts s) = Inl (Error repository_format_error)"
  then obtain s1 where "scanRepository W owner repo p exts s = (Inl (Error repository_format_error), s1)"
    by (cases "scanRepository W owner repo p exts s") auto
  from scanRepository_error_prefix [OF this]
  show False by (simp add: repository_format_error_def)
qed

lemma GitHubService_new_not_format_error:
  "GitHubService_new W token \<noteq> Inl (Error repository_format_error)"
  by (auto simp: GitHubService_new_def Let_def token_required_def repository_format_error_def
      split: option.splits if_splits)

lemma scanRepositoryHandler_accepts:
  assumes "filter (\<lambda>q. length q > 0) (split_js repository (CHR ''/'')) = [owner, repo]"
    and "trim owner \<noteq> []" "trim repo \<noteq> []"
  shows "scanRepositoryHandler W repository p exts s =
      (case GitHubService_new W None of
         Inl e \<Rightarrow> (Inl e, s)
       | Inr githubService \<Rightarrow>
           scanRepository W (trim owner) (trim repo) (or_str p [])
             (case exts of None \<Rightarrow> default_extensions | Some xs \<Rightarrow> xs) s)"
  using assms by (simp add: scanRepositoryHandler_def Let_def split: sum.splits)

lemma scanRepositoryHandler_rejects:
  assumes "\<not> (\<exists>owner repo.
              filter (\<lambda>q. length q > 0) (split_js repository (CHR ''/'')) = [owner, repo]
              \<and> trim owner \<noteq> [] \<and> trim repo \<noteq> [])"
  shows "scanRepositoryHandler W repository p exts s = (Inl (Error repository_format_error), s)"
proof (cases "length (filter (\<lambda>q. length q > 0) (split_js repository (CHR ''/''))) = 2")
  case False
  then show ?thesis by (simp add: scanRepositoryHandler_def Let_def)
next
  case True
  then obtain a b where ab: "filter (\<lambda>q. length q > 0) (split_js repository (CHR ''/'')) = [a, b]"
    by (auto simp: length_Suc_conv numeral_2_eq_2)
  with assms have "trim a = [] \<or> trim b = []" by auto
  with ab show ?thesis by (auto simp: scanRepositoryHandler_def Let_def)
qed

text \<open>
  Claim C10.  The scan handler fails with the \<open>owner/repo\<close> format error exactly when the
  parts of the repository argument between slashes, empty parts dropped, are not two
  parts that are both non-empty after trimming.  When they are, the handler goes on to
  scan with the trimmed parts as owner and repository.  So \<open>/owner/repo/\<close> and
  \<open>owner//repo\<close> are not rejected and behave as \<open>owner/repo\<close> does.
\<close>

theorem repository_argument_format:
  "(fst (scanRepositoryHandler W repository p exts s) = Inl (Error repository_format_error))
     = (\<not> (\<exists>owner repo.
              filter (\<lambda>q. length q > 0) (split_js repository (CHR ''/'')) = [owner, repo]
              \<and> trim owner \<noteq> [] \<and> trim repo \<noteq> []))
   \<and> (filter (\<lambda>q. length q > 0) (split_js repository (CHR ''/'')) = [owner, repo]
        \<and> trim owner \<noteq> [] \<and> trim repo \<noteq> [] \<longrightarrow>
      scanRepositoryHandler W repository p exts s =
        (case GitHubService_new W None of
           Inl e \<Rightarrow> (Inl e, s)
         | Inr githubService \<Rightarrow>
             scanRepository W (trim owner) (trim repo) (or_str p [])
               (case exts of None \<Rightarrow> default_extensions | Some xs \<Rightarrow> xs) s))
   \<and> scanRepositoryHandler W ''/owner/repo/'' p exts s
       = scanRepositoryHandler W ''owner/repo'' p exts s
   \<and> scanRepositoryHandler W ''owner//repo'' p exts s
       = scanRepositoryHandler W ''owner/repo'' p exts s
   \<and> fst (scanRepositoryHandler W ''/owner/repo/'' p exts s) \<noteq> Inl (Error repository_format_error)
   \<and> fst (scanRepositoryHandler W ''owner//repo'' p exts s) \<noteq> Inl (Error repository_format_error)"
proof -
  have iff: "(fst (scanRepositoryHandler W repository p exts s) = Inl (Error repository_format_error))
     = (\<not> (\<exists>owner repo.
              filter (\<lambda>q. length q > 0) (split_js repository (CHR ''/'')) = [owner, repo]
              \<and> trim owner \<noteq> [] \<and> trim repo \<noteq> []))" for repository
  proof (cases "\<exists>owner repo.
              filter (\<lambda>q. length q > 0) (split_js repository (CHR ''/'')) = [owner, repo]
              \<and> trim owner \<noteq> [] \<and> trim repo \<noteq> []")
    case False
    then show ?thesis by (simp add: scanRepositoryHandler_rejects)
  next
    case True
    then obtain owner repo where
      ok: "filter (\<lambda>q. length q > 0) (split_js repository (CHR ''/'')) = [owner, repo]"
        "trim owner \<noteq> []" "trim repo \<noteq> []"
      by blast
    have "fst (scanRepositoryHandler W repository p exts s) \<noteq> Inl (Error repository_format_error)"
      using GitHubService_new_not_format_error [of W None]
        scanRepository_not_format_error
      by (auto simp: scanRepositoryHandler_accepts [OF ok] split: sum.splits)
    with True show ?thesis by blast
  qed
  have t: "trim ''owner'' = ''owner''" "trim ''repo'' = ''repo''"
    by code_simp+
  have p1: "filter (\<lambda>q. length q > 0) (split_js ''owner/repo'' (CHR ''/'')) = [''owner'', ''repo'']"
    and p2: "filter (\<lambda>q. length q > 0) (split_js ''/owner/repo/'' (CHR ''/'')) = [''owner'', ''repo'']"
    and p3: "filter (\<lambda>q. length q > 0) (split_js ''owner//repo'' (CHR ''/'')) = [''owner'', ''repo'']"
    by code_simp+
  have a1: "scanRepositoryHandler W ''/owner/repo/'' p exts s
       = scanRepositoryHandler W ''owner/repo'' p exts s"
    using t by (simp add: scanRepositoryHandler_accepts [OF p1] scanRepositoryHandler_accepts [OF p2])
  have a2: "scanRepositoryHandler W ''owner//repo'' p exts s
       = scanRepositoryHandler W ''owner/repo'' p exts s"
    using t by (simp add: scanRepositoryHandler_accepts [OF p1] scanRepositoryHandler_accepts [OF p3])
  have n1: "fst (scanRepositoryHandler W ''/owner/repo/'' p exts s)
              \<noteq> Inl (Error repository_format_error)"
    using p2 t by (simp add: iff)
  have n2: "fst (scanRepositoryHandler W ''owner//repo'' p exts s)
              \<noteq> Inl (Error repository_format_error)"
    using p3 t by (simp add: iff)
  show ?thesis
    using iff a1 a2 n1 n2 by (simp add: scanRepositoryHandler_accepts)
qed

theorem repository_argument_format_witness:
  "fst (scanRepositoryHandler demo_world ''/owner/repo/'' None None s0)
     = fst (scanRepository demo_world ''owner'' ''repo'' [] default_extensions s0)
   \<and> fst (scanRepositoryHandler demo_world ''owner'' None None s0)
     = Inl (Error repository_format_error)
   \<and> fst (scanRepositoryHandler demo_world ''owner/repo/extra'' None None s0)
     = Inl (Error repository_format_error)
   \<and> fst (scanRepositoryHandler demo_world ''owner/ '' None None s0)
     = Inl (Error repository_format_error)"
proof -
  have t: "trim ''owner'' = ''owner''" "trim ''repo'' = ''repo''" "trim '' '' = []"
    by code_simp+
  have p: "filter (\<lambda>q. length q > 0) (split_js ''/owner/repo/'' (CHR ''/'')) = [''owner'', ''repo'']"
      "filter (\<lambda>q. length q > 0) (split_js ''owner'' (CHR ''/'')) = [''owner'']"
      "filter (\<lambda>q. length q > 0) (split_js ''owner/repo/extra'' (CHR ''/''))
         = [''owner'', ''repo'', ''extra'']"
      "filter (\<lambda>q. length q > 0) (split_js ''owner/ '' (CHR ''/'')) = [''owner'', '' '']"
    by code_simp+
  have g: "GitHubService_new demo_world None = Inr ()" by code_simp
  have 1: "scanRepositoryHandler demo_world ''/owner/repo/'' None None s0
             = scanRepository demo_world ''owner'' ''repo'' [] default_extensions s0"
    using repository_argument_format
            [where W = demo_world and repository = "''/owner/repo/''" and owner = "''owner''"
               and repo = "''repo''" and p = None and exts = None and s = s0] p t g
    by (simp add: or_str_def)
  have 2: "fst (scanRepositoryHandler demo_world ''owner'' None None s0)
             = Inl (Error repository_format_error)"
    using repository_argument_format
            [where W = demo_world and repository = "''owner''" and p = None and exts = None
               and s = s0] p
    by simp
  have 3: "fst (scanRepositoryHandler demo_world ''owner/repo/extra'' None None s0)
             = Inl (Error repository_format_error)"
    using repository_argument_format
            [where W = demo_world and repository = "''owner/repo/extra''" and p = None
               and exts = None and s = s0] p
    by simp
  have 4: "fst (scanRepositoryHandler demo_world ''owner/ '' None None s0)
             = Inl (Error repository_format_error)"
    using repository_argument_format
            [where W = demo_world and repository = "''owner/ ''" and p = None
               and exts = None and s = s0] p t
    by simp
  show ?thesis using 1 2 3 4 by simp
qed

section \<open>Properties of the content fetcher\<close>

lemma getFileContent_throws_Error:
  "getFileContent W owner repo p s = (Inl e, s1) \<Longrightarrow> \<exists>m. e = Error m"
  by (auto simp: getFileContent_def split: prod.splits sum.splits)

lemma getFileContent_decodes:
  "repos_getContent W (calls s) owner repo p None = File d \<Longrightarrow> d_type d = ''file'' \<Longrightarrow>
   d_content d = Some c \<Longrightarrow> d_encoding d = Some ''base64'' \<Longrightarrow>
     getFileContent W owner repo p s
       = (Inr (base64_to_utf8 W c), log_call (ReposGetContent owner repo p None) s)"
  by (simp add: getFileContent_def getFileContent_try_def)

lemma raw_download:
  assumes "URL_new W locator = Inr u" "hostname u = ''raw.githubusercontent.com''"
    and "filter (\<lambda>q. length q > 0) (split_js (pathname u) (CHR ''/'')) = parts"
    and "length parts \<ge> 4" "GitHubService_new W None = Inr ()"
  shows "parseDocumentHandler_download W locator s =
      (case getFileContent W (parts ! 0) (parts ! 1) (join (drop 3 parts) ''/'') s of
         (Inr c, s1) \<Rightarrow> (Inr (c, Some (last parts)), s1)
       | (Inl e, s1) \<Rightarrow>
           (Inl (Error (''Failed to download file from URL: '' @ error_text e)), s1))"
proof -
  from assms(4) have ne: "parts \<noteq> []" by auto
  obtain r s1 where g: "getFileContent W (parts ! 0) (parts ! 1) (join (drop 3 parts) ''/'') s = (r, s1)"
    by (cases "getFileContent W (parts ! 0) (parts ! 1) (join (drop 3 parts) ''/'') s")
  show ?thesis
  proof (cases r)
    case (Inl e)
    with g getFileContent_throws_Error obtain m where "e = Error m" by blast
    with Inl g assms ne show ?thesis
      by (simp add: parseDocumentHandler_download_def parseDocumentHandler_try_def Let_def)
  next
    case (Inr c)
    with g assms ne show ?thesis
      by (simp add: parseDocumentHandler_download_def parseDocumentHandler_try_def Let_def)
  qed
qed

text \<open>
  Claim C8.  For a locator on the host \<open>raw.githubusercontent.com\<close> whose path has at
  least four non-empty parts, and with a token configured, the download is
  \<open>getFileContent\<close> for the first part as owner, the second as repository and the parts
  from the fourth on, joined by \<open>/\<close>, as path: the text it returns is returned as it is
  (with the last part as file name), its failure is re-thrown.  That text is the base64
  content of the API's answer, decoded.  The third part, the branch, does not matter: a
  locator that differs only there downloads the same.
\<close>

theorem raw_locator_uses_getFileContent:
  "URL_new W locator = Inr u \<and> hostname u = ''raw.githubusercontent.com''
   \<and> filter (\<lambda>q. length q > 0) (split_js (pathname u) (CHR ''/'')) = parts
   \<and> length parts \<ge> 4 \<and> GitHubService_new W None = Inr () \<longrightarrow>
     parseDocumentHandler_download W locator s =
       (case getFileContent W (parts ! 0) (parts ! 1) (join (drop 3 parts) ''/'') s of
          (Inr c, s1) \<Rightarrow> (Inr (c, Some (last parts)), s1)
        | (Inl e, s1) \<Rightarrow>
            (Inl (Error (''Failed to download file from URL: '' @ error_text e)), s1))
     \<and> (\<forall>d c. repos_getContent W (calls s) (parts ! 0) (parts ! 1)
                  (join (drop 3 parts) ''/'') None = File d
               \<and> d_type d = ''file'' \<and> d_content d = Some c \<and> d_encoding d = Some ''base64'' \<longrightarrow>
            getFileContent W (parts ! 0) (parts ! 1) (join (drop 3 parts) ''/'') s
              = (Inr (base64_to_utf8 W c),
                 log_call (ReposGetContent (parts ! 0) (parts ! 1)
                             (join (drop 3 parts) ''/'') None) s))
     \<and> (\<forall>locator' u' b.
            URL_new W locator' = Inr u' \<and> hostname u' = ''raw.githubusercontent.com''
            \<and> filter (\<lambda>q. length q > 0) (split_js (pathname u') (CHR ''/'')) = parts[2 := b] \<longrightarrow>
            parseDocumentHandler_download W locator' s
              = parseDocumentHandler_download W locator s)"
proof (intro impI, elim conjE, intro conjI allI impI)
  assume a: "URL_new W locator = Inr u" "hostname u = ''raw.githubusercontent.com''"
    "filter (\<lambda>q. length q > 0) (split_js (pathname u) (CHR ''/'')) = parts"
    "length parts \<ge> 4" "GitHubService_new W None = Inr ()"
  show d: "parseDocumentHandler_download W locator s =
       (case getFileContent W (parts ! 0) (parts ! 1) (join (drop 3 parts) ''/'') s of
          (Inr c, s1) \<Rightarrow> (Inr (c, Some (last parts)), s1)
        | (Inl e, s1) \<Rightarrow>
            (Inl (Error (''Failed to download file from URL: '' @ error_text e)), s1))"
    by (rule raw_download [OF a])
  {
    fix d c
    assume "repos_getContent W (calls s) (parts ! 0) (parts ! 1)
                  (join (drop 3 parts) ''/'') None = File d
               \<and> d_type d = ''file'' \<and> d_content d = Some c \<and> d_encoding d = Some ''base64''"
    then show "getFileContent W (parts ! 0) (parts ! 1) (join (drop 3 parts) ''/'') s
              = (Inr (base64_to_utf8 W c),
                 log_call (ReposGetContent (parts ! 0) (parts ! 1)
                             (join (drop 3 parts) ''/'') None) s)"
      by (simp add: getFileContent_decodes)
  }
  {
    fix locator' u' b
    assume b: "URL_new W locator' = Inr u' \<and> hostname u' = ''raw.githubusercontent.com''
            \<and> filter (\<lambda>q. length q > 0) (split_js (pathname u') (CHR ''/'')) = parts[2 := b]"
    have l: "length (parts[2 := b]) \<ge> 4" using a(4) by simp
    have same: "parts[2 := b] ! 0 = parts ! 0" "parts[2 := b] ! 1 = parts ! 1"
        "drop 3 (parts[2 := b]) = drop 3 parts" "last (parts[2 := b]) = last parts"
    proof -
      from a(4) have ne: "parts \<noteq> []" by auto
      from a(4) show "parts[2 := b] ! 0 = parts ! 0" "parts[2 := b] ! 1 = parts ! 1"
        "drop 3 (parts[2 := b]) = drop 3 parts" by simp_all
      from a(4) ne show "last (parts[2 := b]) = last parts"
        by (auto simp: last_list_update)
    qed
    from b have b': "URL_new W locator' = Inr u'" "hostname u' = ''raw.githubusercontent.com''"
        "filter (\<lambda>q. length q > 0) (split_js (pathname u') (CHR ''/'')) = parts[2 := b]"
      by simp_all
    have "parseDocumentHandler_download W locator' s =
       (case getFileContent W (parts[2 := b] ! 0) (parts[2 := b] ! 1)
               (join (drop 3 (parts[2 := b])) ''/'') s of
          (Inr c, s1) \<Rightarrow> (Inr (c, Some (last (parts[2 := b]))), s1)
        | (Inl e, s1) \<Rightarrow>
            (Inl (Error (''Failed to download file from URL: '' @ error_text e)), s1))"
      by (rule raw_download [OF b' l a(5)])
    then have "parseDocumentHandler_download W locator' s =
       (case getFileContent W (parts ! 0) (parts ! 1) (join (drop 3 parts) ''/'') s of
          (Inr c, s1) \<Rightarrow> (Inr (c, Some (last parts)), s1)
        | (Inl e, s1) \<Rightarrow>
            (Inl (Error (''Failed to download file from URL: '' @ error_text e)), s1))"
      unfolding same .
    with d show "parseDocumentHandler_download W locator' s
              = parseDocumentHandler_download W locator s"
      by simp
  }
qed

theorem raw_locator_uses_getFileContent_witness:
  "parseDocumentHandler_download demo_world
       ''https://raw.githubusercontent.com/ownerX/repoY/main/docs/report.md'' s0
     = (Inr (''hello'', Some ''report.md''),
        \<lparr>calls = [ReposGetContent ''ownerX'' ''repoY'' ''docs/report.md'' None], warnings = [],
          clock_reads = 0\<rparr>)
   \<and> getFileContent demo_world ''ownerX'' ''repoY'' ''docs/report.md'' s0
     = (Inr ''hello'',
        \<lparr>calls = [ReposGetContent ''ownerX'' ''repoY'' ''docs/report.md'' None], warnings = [],
          clock_reads = 0\<rparr>)
   \<and> parseDocumentHandler_download demo_world
       ''https://raw.githubusercontent.com/ownerX/repoY/develop/docs/report.md'' s0
     = parseDocumentHandler_download demo_world
       ''https://raw.githubusercontent.com/ownerX/repoY/main/docs/report.md'' s0"
proof -
  let ?loc = "''https://raw.githubusercontent.com/ownerX/repoY/main/docs/report.md''"
  let ?loc' = "''https://raw.githubusercontent.com/ownerX/repoY/develop/docs/report.md''"
  let ?u = "\<lparr>hostname = ''raw.githubusercontent.com'',
              pathname = ''/ownerX/repoY/main/docs/report.md''\<rparr>"
  let ?u' = "\<lparr>hostname = ''raw.githubusercontent.com'',
              pathname = ''/ownerX/repoY/develop/docs/report.md''\<rparr>"
  let ?parts = "[''ownerX'', ''repoY'', ''main'', ''docs'', ''report.md'']"
  let ?d = "\<lparr>d_type = ''file'', d_path = ''docs/report.md'', d_sha = ''sha-r'', d_size = 5,
              d_name = ''report.md'', d_content = Some ''aGVsbG8='',
              d_encoding = Some ''base64''\<rparr>"
  have u: "URL_new demo_world ?loc = Inr ?u" by code_simp
  have u': "URL_new demo_world ?loc' = Inr ?u'" by code_simp
  have p: "filter (\<lambda>q. length q > 0) (split_js (pathname ?u) (CHR ''/'')) = ?parts"
    by code_simp
  have p': "filter (\<lambda>q. length q > 0) (split_js (pathname ?u') (CHR ''/''))
              = ?parts[2 := ''develop'']"
    by code_simp
  have t: "GitHubService_new demo_world None = Inr ()" by code_simp
  have j: "join (drop 3 ?parts) ''/'' = ''docs/report.md''" by code_simp
  have c: "repos_getContent demo_world (calls s0) ''ownerX'' ''repoY'' ''docs/report.md'' None
             = File ?d"
    by code_simp
  have b: "base64_to_utf8 demo_world ''aGVsbG8='' = ''hello''" by code_simp
  have ante: "URL_new demo_world ?loc = Inr ?u \<and> hostname ?u = ''raw.githubusercontent.com''
      \<and> filter (\<lambda>q. length q > 0) (split_js (pathname ?u) (CHR ''/'')) = ?parts
      \<and> length ?parts \<ge> 4 \<and> GitHubService_new demo_world None = Inr ()"
    using u p t by simp
  note r = mp [OF raw_locator_uses_getFileContent
                    [where W = demo_world and locator = ?loc and u = ?u and parts = ?parts
                       and s = s0]
                  ante]
  have sel: "?parts ! 0 = ''ownerX''" "?parts ! 1 = ''repoY''" "last ?parts = ''report.md''"
    by simp_all
  have 2: "getFileContent demo_world ''ownerX'' ''repoY'' ''docs/report.md'' s0
              = (Inr ''hello'',
                 log_call (ReposGetContent ''ownerX'' ''repoY'' ''docs/report.md'' None) s0)"
    using r [THEN conjunct2, THEN conjunct1, rule_format, of ?d "''aGVsbG8=''"] c
    unfolding j sel b by simp
  have 1: "parseDocumentHandler_download demo_world ?loc s0
             = (Inr (''hello'', Some ''report.md''),
                log_call (ReposGetContent ''ownerX'' ''repoY'' ''docs/report.md'' None) s0)"
    using r [THEN conjunct1] unfolding j sel 2 by simp
  have 3: "parseDocumentHandler_download demo_world ?loc' s0
             = parseDocumentHandler_download demo_world ?loc s0"
    using r [THEN conjunct2, THEN conjunct2, rule_format, of ?loc' ?u' "''develop''"] u' p'
    by simp
  show ?thesis
    using 1 2 3 by (simp add: log_call_def s0_def)
qed

text \<open>
  Claim C9.  \<open>parseDocumentHandler\<close> fails, with the state unchanged (no call has been
  made), when the locator is empty, when the URL parser rejects it, and when it is on the
  raw-content host with fewer than four non-empty path parts.  For a locator on any other
  host, a response that is not \<open>ok\<close> makes it fail as well, after that one request.
\<close>

theorem malformed_locator_fails_before_any_call:
  "(locator = [] \<longrightarrow>
      parseDocumentHandler W L locator fileType s = (Inl (Error ''downloadUrl is required''), s))
   \<and> (locator \<noteq> [] \<and> URL_new W locator = Inl e \<longrightarrow>
      parseDocumentHandler W L locator fileType s =
        (Inl (Error (if is_invalid_url_error e then ''Invalid downloadUrl format: '' @ locator
                     else ''Failed to download file from URL: '' @ error_text e)), s))
   \<and> (locator \<noteq> [] \<and> URL_new W locator = Inr u \<and> hostname u = ''raw.githubusercontent.com''
        \<and> length (filter (\<lambda>q. length q > 0) (split_js (pathname u) (CHR ''/''))) < 4 \<longrightarrow>
      parseDocumentHandler W L locator fileType s =
        (Inl (Error (''Failed to download file from URL: ''
                       @ ''Invalid raw.githubusercontent.com URL format'')), s))
   \<and> (locator \<noteq> [] \<and> URL_new W locator = Inr u \<and> hostname u \<noteq> ''raw.githubusercontent.com''
        \<and> fetch W (calls s) locator = Inr r \<and> \<not> ok r \<longrightarrow>
      parseDocumentHandler W L locator fileType s =
        (Inl (Error (''Failed to download file from URL: ''
                       @ ''Failed to download file from URL: '' @ statusText r)),
         log_call (Fetch locator) s))"
  by (simp add: parseDocumentHandler_def parseDocumentHandler_download_def
        parseDocumentHandler_try_def Let_def)

theorem malformed_locator_fails_before_any_call_witness:
  "parseDocumentHandler demo_world demo_libs ''not a url'' None s0
     = (Inl (Error ''Invalid downloadUrl format: not a url''), s0)
   \<and> parseDocumentHandler demo_world demo_libs
       ''https://raw.githubusercontent.com/ownerX/repoY'' None s0
     = (Inl (Error ''Failed to download file from URL: Invalid raw.githubusercontent.com URL format''),
        s0)
   \<and> parseDocumentHandler demo_world demo_libs ''https://example.org/missing.txt'' None s0
     = (Inl (Error ''Failed to download file from URL: Failed to download file from URL: Not Found''),
        \<lparr>calls = [Fetch ''https://example.org/missing.txt''], warnings = [], clock_reads = 0\<rparr>)
   \<and> parseDocumentHandler demo_world demo_libs [] None s0
     = (Inl (Error ''downloadUrl is required''), s0)"
proof -
  let ?raw = "''https://raw.githubusercontent.com/ownerX/repoY''"
  let ?other = "''https://example.org/missing.txt''"
  have a: "URL_new demo_world ''not a url'' = Inl (TypeError ''Invalid URL'')"
      "is_invalid_url_error (TypeError ''Invalid URL'')"
    by code_simp+
  have b: "URL_new demo_world ?raw
             = Inr \<lparr>hostname = ''raw.githubusercontent.com'', pathname = ''/ownerX/repoY''\<rparr>"
      "length (filter (\<lambda>q. length q > 0) (split_js ''/ownerX/repoY'' (CHR ''/''))) < 4"
    by code_simp+
  have c: "URL_new demo_world ?other
             = Inr \<lparr>hostname = ''example.org'', pathname = ''/missing.txt''\<rparr>"
      "fetch demo_world (calls s0) ?other
             = Inr \<lparr>ok = False, statusText = ''Not Found'', text_body = Inr []\<rparr>"
    by code_simp+
  have 1: "parseDocumentHandler demo_world demo_libs ''not a url'' None s0
     = (Inl (Error ''Invalid downloadUrl format: not a url''), s0)"
    using malformed_locator_fails_before_any_call
            [where W = demo_world and L = demo_libs and locator = "''not a url''"
               and fileType = None and s = s0 and e = "TypeError ''Invalid URL''"] a
    by simp
  have 2: "parseDocumentHandler demo_world demo_libs ?raw None s0
     = (Inl (Error ''Failed to download file from URL: Invalid raw.githubusercontent.com URL format''),
        s0)"
    using malformed_locator_fails_before_any_call
            [where W = demo_world and L = demo_libs and locator = ?raw and fileType = None
               and s = s0
               and u = "\<lparr>hostname = ''raw.githubusercontent.com'', pathname = ''/ownerX/repoY''\<rparr>"]
          b
    by simp
  have 3: "parseDocumentHandler demo_world demo_libs ?other None s0
     = (Inl (Error ''Failed to download file from URL: Failed to download file from URL: Not Found''),
        log_call (Fetch ?other) s0)"
    using malformed_locator_fails_before_any_call
            [where W = demo_world and L = demo_libs and locator = ?other and fileType = None
               and s = s0 and u = "\<lparr>hostname = ''example.org'', pathname = ''/missing.txt''\<rparr>"
               and r = "\<lparr>ok = False, statusText = ''Not Found'', text_body = Inr []\<rparr>"]
          c
    by simp
  have 4: "parseDocumentHandler demo_world demo_libs [] None s0
     = (Inl (Error ''downloadUrl is required''), s0)"
    using malformed_locator_fails_before_any_call
            [where W = demo_world and L = demo_libs and locator = "[]" and fileType = None
               and s = s0]
    by simp
  show ?thesis
    using 1 2 3 4 by (simp add: log_call_def s0_def)
qed

end
